theory Spec2Isabelle
  imports Main "HOL-Library.Word"
begin

unbundle bit_operations_syntax

section \<open>Machine integers and byte buffers\<close>

type_synonym byte = "8 word"
type_synonym uint16 = "16 word"
type_synonym uint32 = "32 word"
type_synonym uint64 = "64 word"

text \<open>
  \<open>encoding/binary\<close> with \<open>binary.LittleEndian\<close>: the value of a byte string read
  least significant byte first, and the fixed-width fields cut out of a buffer at a
  byte position.
\<close>

fun le_nat :: "byte list \<Rightarrow> nat" where
  "le_nat [] = 0"
| "le_nat (b # bs) = unat b + 256 * le_nat bs"

definition u8 :: "byte list \<Rightarrow> nat \<Rightarrow> byte" where
  "u8 buf i = of_nat (le_nat (take 1 (drop i buf)))"

definition u16 :: "byte list \<Rightarrow> nat \<Rightarrow> uint16" where
  "u16 buf i = of_nat (le_nat (take 2 (drop i buf)))"

definition u32 :: "byte list \<Rightarrow> nat \<Rightarrow> uint32" where
  "u32 buf i = of_nat (le_nat (take 4 (drop i buf)))"

section \<open>Debug data: frame pointer omission records\<close>

text \<open>\<open>FPODataRaw\<close>, the packed record as stored in the file.\<close>

record FPODataRaw =
  raw_OffsetStart :: uint32
  raw_FuncSize :: uint32
  raw_NLocals :: uint32
  raw_Params :: uint16
  raw_Prolog :: byte
  raw_Bitfield :: byte

text \<open>\<open>FrameType\<close> is a \<open>uint8\<close> with four named values.\<close>

type_synonym FrameType = byte

definition FrameTypeFPO :: FrameType where "FrameTypeFPO = 0"
definition FrameTypeNonFPO :: FrameType where "FrameTypeNonFPO = 3"
definition FrameTypeTrap :: FrameType where "FrameTypeTrap = 1"
definition FrameTypeTSS :: FrameType where "FrameTypeTSS = 2"

record FPOData =
  fpo_OffsetStart :: uint32
  fpo_FuncSize :: uint32
  fpo_NLocals :: uint64
  fpo_Params :: uint32
  fpo_Prolog :: byte
  fpo_Regs :: byte
  fpo_HasSEH :: bool
  fpo_UseBP :: bool
  fpo_Reserved :: byte
  fpo_Frame :: FrameType

text \<open>
  \<open>ParseFPOData\<close>. In Go \<open>&\<close> and \<open>>>\<close> have the same precedence and associate to
  the left, so \<open>raw.Bitfield & 0x20 >> 5\<close> is \<open>(raw.Bitfield & 0x20) >> 5\<close>. The
  products are computed after widening (\<open>uint64(raw.NLocals) * 4\<close>,
  \<open>uint32(raw.Params) * 4\<close>).
\<close>

definition ParseFPOData :: "FPODataRaw \<Rightarrow> FPOData" where
  "ParseFPOData raw =
     (let regs = raw_Bitfield raw AND 0x07;
          hasSEH = (raw_Bitfield raw AND 0x08 \<noteq> 0);
          useBP = (raw_Bitfield raw AND 0x10 \<noteq> 0);
          reserved = drop_bit 5 (raw_Bitfield raw AND 0x20);
          frame = drop_bit 6 (raw_Bitfield raw AND 0xC0)
      in \<lparr> fpo_OffsetStart = raw_OffsetStart raw,
           fpo_FuncSize = raw_FuncSize raw,
           fpo_NLocals = (ucast (raw_NLocals raw) :: uint64) * 4,
           fpo_Params = (ucast (raw_Params raw) :: uint32) * 4,
           fpo_Prolog = raw_Prolog raw,
           fpo_Regs = regs,
           fpo_HasSEH = hasSEH,
           fpo_UseBP = useBP,
           fpo_Reserved = reserved,
           fpo_Frame = frame \<rparr>)"

section \<open>Section flags\<close>

type_synonym SectFlag = uint32

definition SectFlagCode :: SectFlag where "SectFlagCode = 0x00000020"
definition SectFlagData :: SectFlag where "SectFlagData = 0x00000040"
definition SectFlagBSS :: SectFlag where "SectFlagBSS = 0x00000080"
definition SectFlagLinkInfo :: SectFlag where "SectFlagLinkInfo = 0x00000200"
definition SectFlagLinkRemove :: SectFlag where "SectFlagLinkRemove = 0x00000800"
definition SectFlagLinkCOMDAT :: SectFlag where "SectFlagLinkCOMDAT = 0x00001000"
definition SectFlagDeferSpecExc :: SectFlag where "SectFlagDeferSpecExc = 0x00004000"
definition SectFlagGPRef :: SectFlag where "SectFlagGPRef = 0x00008000"
definition SectFlagObjAlign1 :: SectFlag where "SectFlagObjAlign1 = 0x00100000"
definition SectFlagObjAlign2 :: SectFlag where "SectFlagObjAlign2 = 0x00200000"
definition SectFlagObjAlign4 :: SectFlag where "SectFlagObjAlign4 = 0x00300000"
definition SectFlagObjAlign8 :: SectFlag where "SectFlagObjAlign8 = 0x00400000"
definition SectFlagObjAlign16 :: SectFlag where "SectFlagObjAlign16 = 0x00500000"
definition SectFlagObjAlign32 :: SectFlag where "SectFlagObjAlign32 = 0x00600000"
definition SectFlagObjAlign64 :: SectFlag where "SectFlagObjAlign64 = 0x00700000"
definition SectFlagObjAlign128 :: SectFlag where "SectFlagObjAlign128 = 0x00800000"
definition SectFlagObjAlign256 :: SectFlag where "SectFlagObjAlign256 = 0x00900000"
definition SectFlagObjAlign512 :: SectFlag where "SectFlagObjAlign512 = 0x00A00000"
definition SectFlagObjAlign1024 :: SectFlag where "SectFlagObjAlign1024 = 0x00B00000"
definition SectFlagObjAlign2048 :: SectFlag where "SectFlagObjAlign2048 = 0x00C00000"
definition SectFlagObjAlign4096 :: SectFlag where "SectFlagObjAlign4096 = 0x00D00000"
definition SectFlagObjAlign8192 :: SectFlag where "SectFlagObjAlign8192 = 0x00E00000"
definition SectFlagRelocsOverflow :: SectFlag where "SectFlagRelocsOverflow = 0x01000000"
definition SectFlagMemDiscard :: SectFlag where "SectFlagMemDiscard = 0x02000000"
definition SectFlagMemNoCache :: SectFlag where "SectFlagMemNoCache = 0x04000000"
definition SectFlagMemNoPage :: SectFlag where "SectFlagMemNoPage = 0x08000000"
definition SectFlagMemShared :: SectFlag where "SectFlagMemShared = 0x10000000"
definition SectFlagMemExec :: SectFlag where "SectFlagMemExec = 0x20000000"
definition SectFlagMemRead :: SectFlag where "SectFlagMemRead = 0x40000000"
definition SectFlagMemWrite :: SectFlag where "SectFlagMemWrite = 0x80000000"

text \<open>\<open>sectFlagName\<close>, the map from a flag to its description.\<close>

definition sectFlagName :: "SectFlag \<rightharpoonup> string" where
  "sectFlagName = map_of
     [(SectFlagCode, ''code''),
      (SectFlagData, ''data''),
      (SectFlagBSS, ''bss''),
      (SectFlagLinkInfo, ''link info''),
      (SectFlagLinkRemove, ''link remove''),
      (SectFlagLinkCOMDAT, ''link COMDAT''),
      (SectFlagDeferSpecExc, ''defer speculative exceptions''),
      (SectFlagGPRef, ''global pointer reference''),
      (SectFlagRelocsOverflow, ''relocs overflow''),
      (SectFlagMemDiscard, ''mem discard''),
      (SectFlagMemNoCache, ''mem no cache''),
      (SectFlagMemNoPage, ''mem no page''),
      (SectFlagMemShared, ''mem shared''),
      (SectFlagMemExec, ''mem exec''),
      (SectFlagMemRead, ''mem read''),
      (SectFlagMemWrite, ''mem write'')]"

text \<open>
  \<open>fmt.Sprintf\<close> with \<open>%08X\<close> (eight upper-case hexadecimal digits of a \<open>uint32\<close>)
  and with \<open>%d\<close> (decimal digits of a number that is not negative here), and
  \<open>strings.Join\<close>.
\<close>

definition hexDigit :: "nat \<Rightarrow> char" where
  "hexDigit d = ''0123456789ABCDEF'' ! d"

definition hex08 :: "uint32 \<Rightarrow> string" where
  "hex08 w = map (\<lambda>k. hexDigit (unat (drop_bit (4 * k) w AND 0xF))) (rev [0..<8])"

function itoa :: "nat \<Rightarrow> string" where
  "itoa n = (if n < 10 then [hexDigit n] else itoa (n div 10) @ [hexDigit (n mod 10)])"
  by pat_completeness auto
termination
  by (relation "measure id") auto

fun Join :: "string list \<Rightarrow> string \<Rightarrow> string" where
  "Join [] sep = []"
| "Join [s] sep = s"
| "Join (s # t # ss) sep = s @ sep @ Join (t # ss) sep"

text \<open>
  The \<open>switch\<close> of \<open>SectFlag.String\<close> that sets \<open>align\<close>, which stays 0 when no
  case matches.
\<close>

definition alignSwitch :: "SectFlag \<Rightarrow> nat" where
  "alignSwitch flags =
     (     if flags = SectFlagObjAlign1 then 1
      else if flags = SectFlagObjAlign2 then 2
      else if flags = SectFlagObjAlign4 then 4
      else if flags = SectFlagObjAlign8 then 8
      else if flags = SectFlagObjAlign16 then 16
      else if flags = SectFlagObjAlign32 then 32
      else if flags = SectFlagObjAlign64 then 64
      else if flags = SectFlagObjAlign128 then 128
      else if flags = SectFlagObjAlign256 then 256
      else if flags = SectFlagObjAlign512 then 512
      else if flags = SectFlagObjAlign1024 then 1024
      else if flags = SectFlagObjAlign2048 then 2048
      else if flags = SectFlagObjAlign4096 then 4096
      else if flags = SectFlagObjAlign8192 then 8192
      else 0)"

text \<open>
  One round of the loop \<open>for i := uint(0); i < 32; i++\<close> on the pair of the remaining
  flags and the strings collected so far, then the whole of \<open>SectFlag.String\<close>.
\<close>

definition sectFlagStep :: "SectFlag \<times> string list \<Rightarrow> nat \<Rightarrow> SectFlag \<times> string list" where
  "sectFlagStep st i =
     (case st of (flags, ss) \<Rightarrow>
        (let mask = (push_bit i 1 :: SectFlag)
         in if mask \<ge> SectFlagObjAlign1 \<and> mask \<le> SectFlagObjAlign8192 then (flags, ss)
            else if flags AND mask \<noteq> 0
            then (flags AND NOT mask,
                  ss @ [case sectFlagName mask of
                          Some s \<Rightarrow> s
                        | None \<Rightarrow> ''unknown flag: 0x'' @ hex08 mask])
            else (flags, ss)))"

definition SectFlag_String :: "SectFlag \<Rightarrow> string" where
  "SectFlag_String flags0 =
     (case foldl sectFlagStep (flags0, []) [0..<32] of (flags, ss) \<Rightarrow>
        (let ss =
               (if flags \<ge> SectFlagObjAlign1 \<and> flags \<le> SectFlagObjAlign8192
                then (let align = alignSwitch flags
                      in ss @ [if align = 0 then ''unknown align flag: 0x'' @ hex08 flags
                               else ''align '' @ itoa align])
                else ss)
         in if length ss = 0 then ''none'' else Join ss ''|''))"

section \<open>The byte source and the readers over it\<close>

text \<open>
  The file is opened by \<open>Open\<close> on an \<open>os.File\<close>; its content is the byte list
  \<open>r\<close>. \<open>ReadAt\<close> of \<open>n\<close> bytes at offset \<open>off\<close> returns the bytes that exist
  in that range, with the error \<open>io.EOF\<close> when they are fewer than \<open>n\<close>. All offsets
  the package computes are sums of unsigned header fields, far below \<open>2^63\<close>, so they
  are natural numbers here; only the overlay size, a difference, is an \<open>int\<close>.
\<close>

datatype ioerr = EOF | ErrUnexpectedEOF

definition ReadAt :: "byte list \<Rightarrow> nat \<Rightarrow> nat \<Rightarrow> byte list \<times> ioerr option" where
  "ReadAt src n off =
     (let bs = take n (drop off src)
      in (bs, if length bs < n then Some EOF else None))"

text \<open>
  \<open>io.SectionReader\<close>: a cursor \<open>sr_off\<close> and a limit \<open>sr_limit\<close> (both absolute)
  on the underlying source. \<open>NewSectionReader(r, off, n)\<close> sets the limit to
  \<open>off + n\<close>.
\<close>

record SectionReader =
  sr_off :: nat
  sr_limit :: nat

definition NewSectionReader :: "nat \<Rightarrow> nat \<Rightarrow> SectionReader" where
  "NewSectionReader off n = \<lparr> sr_off = off, sr_limit = off + n \<rparr>"

text \<open>The bytes a section reader can still deliver.\<close>

definition sr_avail :: "byte list \<Rightarrow> SectionReader \<Rightarrow> byte list" where
  "sr_avail src sr = take (sr_limit sr - sr_off sr) (drop (sr_off sr) src)"

text \<open>
  \<open>io.ReadFull(sr, buf)\<close> with \<open>len(buf) = k\<close>, as the standard library documents
  it: exactly \<open>k\<close> bytes, or \<open>io.EOF\<close> when no byte could be read and
  \<open>io.ErrUnexpectedEOF\<close> when some but fewer than \<open>k\<close> could, because the source
  or the section ended. A request for no bytes succeeds without reading.
\<close>

definition ReadFull ::
  "byte list \<Rightarrow> SectionReader \<Rightarrow> nat \<Rightarrow> (ioerr + byte list) \<times> SectionReader" where
  "ReadFull src sr k =
     (let avail = sr_avail src sr
      in if k \<le> length avail
         then (Inr (take k avail), sr\<lparr>sr_off := sr_off sr + k\<rparr>)
         else (Inl (if avail = [] then EOF else ErrUnexpectedEOF),
               sr\<lparr>sr_off := sr_off sr + length avail\<rparr>))"

text \<open>
  \<open>ioutil.ReadAll(sr)\<close>: everything up to the end of the section or of the source,
  whichever comes first; reaching the end is success.
\<close>

definition ReadAll :: "byte list \<Rightarrow> SectionReader \<Rightarrow> byte list" where
  "ReadAll src sr = sr_avail src sr"

section \<open>Errors, panics and observable effects\<close>

text \<open>
  One constructor for each \<open>fmt.Errorf\<close> message of the package, carrying what the
  message prints; \<open>IOError\<close> is an error of the reader passed on by
  \<open>errors.WithStack\<close>.
\<close>

datatype error =
    DOSReadSignature ioerr
  | DOSInvalidSignature uint16
  | DOSReadHeader ioerr
  | FileReadSignature ioerr
  | FileInvalidSignature uint32
  | FileReadHeader ioerr
  | OptReadHeader ioerr
  | OptReadDataDirs ioerr
  | SectReadHeader ioerr
  | StubRead ioerr
  | IOError ioerr

datatype panic = MakesliceLenOutOfRange | NilPointerDereference

text \<open>
  A fatal error of the runtime ends the program and cannot be recovered from:
  \<open>fatal error: runtime: out of memory\<close>, when an allocation is larger than what the
  runtime can get from the system.
\<close>

datatype fatal = OutOfMemory

datatype failure = Error error | Panic panic | Fatal fatal

text \<open>
  What a call does besides returning: the reads it requests (absolute offset, number
  of bytes), the arrays it allocates with \<open>make\<close> (number of elements), the seek to
  the end of the source, and the warnings it prints with \<open>log.Printf\<close> (index and
  value of a reserved field that is not zero). The list is kept in the file state,
  oldest first. An allocation is recorded as requested. The requests whose size is
  bounded by the source or by the width of a field are served: at most 65535 pointers
  for the section headers, fewer than \<open>2^32\<close> bytes for the DOS stub, at most the
  length of the source for the overlay. The slice of data directories has 8 bytes for
  each of up to \<open>2^32 - 1\<close> entries; for it the memory that the runtime can still
  hand out is a parameter of the model (see \<open>parseOptHeader\<close>).
\<close>

datatype effect =
    Read nat nat
  | Make nat
  | SeekEnd
  | LogDOSReserved nat nat
  | LogOptReserved nat

section \<open>Headers\<close>

definition dosHdrSize :: nat where "dosHdrSize = 64"
definition fileHdrSize :: nat where "fileHdrSize = 24"
definition maxOptHdrSize :: nat where "maxOptHdrSize = 224"
definition sectHdrSize :: nat where "sectHdrSize = 40"

record DOSHeader =
  dh_LastPageSize :: uint16
  dh_NPage :: uint16
  dh_NReloc :: uint16
  dh_NHdrPar :: uint16
  dh_MinAlloc :: uint16
  dh_MaxAlloc :: uint16
  dh_SS :: uint16
  dh_SP :: uint16
  dh_Checksum :: uint16
  dh_IP :: uint16
  dh_CS :: uint16
  dh_RelocTblOffset :: uint16
  dh_OverlayNum :: uint16
  dh_Res :: "uint16 list"
  dh_OEMID :: uint16
  dh_OEMInfo :: uint16
  dh_Res2 :: "uint16 list"
  dh_PEHdrOffset :: uint32

text \<open>\<open>binary.Read\<close> into a \<open>DOSHeader\<close>: 62 bytes, the fields in declaration order.\<close>

definition decodeDOSHeader :: "byte list \<Rightarrow> DOSHeader" where
  "decodeDOSHeader b =
     \<lparr> dh_LastPageSize = u16 b 0, dh_NPage = u16 b 2, dh_NReloc = u16 b 4,
       dh_NHdrPar = u16 b 6, dh_MinAlloc = u16 b 8, dh_MaxAlloc = u16 b 10,
       dh_SS = u16 b 12, dh_SP = u16 b 14, dh_Checksum = u16 b 16,
       dh_IP = u16 b 18, dh_CS = u16 b 20, dh_RelocTblOffset = u16 b 22,
       dh_OverlayNum = u16 b 24,
       dh_Res = map (\<lambda>i. u16 b (26 + 2 * i)) [0..<4],
       dh_OEMID = u16 b 34, dh_OEMInfo = u16 b 36,
       dh_Res2 = map (\<lambda>i. u16 b (38 + 2 * i)) [0..<10],
       dh_PEHdrOffset = u32 b 58 \<rparr>"

text \<open>\<open>new(DOSHeader)\<close>: every field zero.\<close>

definition newDOSHeader :: DOSHeader where
  "newDOSHeader =
     \<lparr> dh_LastPageSize = 0, dh_NPage = 0, dh_NReloc = 0, dh_NHdrPar = 0,
       dh_MinAlloc = 0, dh_MaxAlloc = 0, dh_SS = 0, dh_SP = 0, dh_Checksum = 0,
       dh_IP = 0, dh_CS = 0, dh_RelocTblOffset = 0, dh_OverlayNum = 0,
       dh_Res = replicate 4 0, dh_OEMID = 0, dh_OEMInfo = 0,
       dh_Res2 = replicate 10 0, dh_PEHdrOffset = 0 \<rparr>"

record FileHeader =
  fh_Arch :: uint16
  fh_NSection :: uint16
  fh_Created :: uint32
  fh_SymTblOffset :: uint32
  fh_NSymbol :: uint32
  fh_OptHdrSize :: uint16
  fh_Flags :: uint16

definition decodeFileHeader :: "byte list \<Rightarrow> FileHeader" where
  "decodeFileHeader b =
     \<lparr> fh_Arch = u16 b 0, fh_NSection = u16 b 2, fh_Created = u32 b 4,
       fh_SymTblOffset = u32 b 8, fh_NSymbol = u32 b 12, fh_OptHdrSize = u16 b 16,
       fh_Flags = u16 b 18 \<rparr>"

definition newFileHeader :: FileHeader where
  "newFileHeader =
     \<lparr> fh_Arch = 0, fh_NSection = 0, fh_Created = 0, fh_SymTblOffset = 0,
       fh_NSymbol = 0, fh_OptHdrSize = 0, fh_Flags = 0 \<rparr>"

record OptHeader32 =
  oh_State :: uint16
  oh_MajorLinkVer :: byte
  oh_MinorLinkVer :: byte
  oh_CodeSize :: uint32
  oh_DataSize :: uint32
  oh_BSSSize :: uint32
  oh_EntryRelAddr :: uint32
  oh_CodeBase :: uint32
  oh_DataBase :: uint32
  oh_ImageBase :: uint32
  oh_SectAlign :: uint32
  oh_FileAlign :: uint32
  oh_MajorOSVer :: uint16
  oh_MinorOSVer :: uint16
  oh_MajorImageVer :: uint16
  oh_MinorImageVer :: uint16
  oh_MajorSubsystemVer :: uint16
  oh_MinorSubsystemVer :: uint16
  oh_Res :: uint32
  oh_ImageSize :: uint32
  oh_HdrSize :: uint32
  oh_Checksum :: uint32
  oh_Subsystem :: uint16
  oh_Flags :: uint16
  oh_ReserveStackSize :: uint32
  oh_InitStackSize :: uint32
  oh_ReserveHeapSize :: uint32
  oh_InitHeapSize :: uint32
  oh_LoaderFlags :: uint32
  oh_NDataDir :: uint32

text \<open>The size \<open>binary.Read\<close> computes for an \<open>OptHeader32\<close>.\<close>

definition optHdr32Size :: nat where "optHdr32Size = 96"

definition decodeOptHeader32 :: "byte list \<Rightarrow> OptHeader32" where
  "decodeOptHeader32 b =
     \<lparr> oh_State = u16 b 0, oh_MajorLinkVer = u8 b 2, oh_MinorLinkVer = u8 b 3,
       oh_CodeSize = u32 b 4, oh_DataSize = u32 b 8, oh_BSSSize = u32 b 12,
       oh_EntryRelAddr = u32 b 16, oh_CodeBase = u32 b 20, oh_DataBase = u32 b 24,
       oh_ImageBase = u32 b 28, oh_SectAlign = u32 b 32, oh_FileAlign = u32 b 36,
       oh_MajorOSVer = u16 b 40, oh_MinorOSVer = u16 b 42,
       oh_MajorImageVer = u16 b 44, oh_MinorImageVer = u16 b 46,
       oh_MajorSubsystemVer = u16 b 48, oh_MinorSubsystemVer = u16 b 50,
       oh_Res = u32 b 52, oh_ImageSize = u32 b 56, oh_HdrSize = u32 b 60,
       oh_Checksum = u32 b 64, oh_Subsystem = u16 b 68, oh_Flags = u16 b 70,
       oh_ReserveStackSize = u32 b 72, oh_InitStackSize = u32 b 76,
       oh_ReserveHeapSize = u32 b 80, oh_InitHeapSize = u32 b 84,
       oh_LoaderFlags = u32 b 88, oh_NDataDir = u32 b 92 \<rparr>"

text \<open>\<open>new(OptHeader)\<close>: every field is zero, as decoded from no bytes at all.\<close>

definition newOptHeader32 :: OptHeader32 where
  "newOptHeader32 = decodeOptHeader32 []"

record DataDirectory =
  dd_RelAddr :: uint32
  dd_Size :: uint32

definition decodeDataDirectory :: "byte list \<Rightarrow> DataDirectory" where
  "decodeDataDirectory b = \<lparr> dd_RelAddr = u32 b 0, dd_Size = u32 b 4 \<rparr>"

text \<open>
  \<open>OptHeader\<close> embeds \<open>OptHeader32\<close> and adds the slice \<open>DataDirs\<close>, which is nil
  (\<open>None\<close>) until \<open>make\<close> has run.
\<close>

record OptHeader =
  oh_OptHeader32 :: OptHeader32
  oh_DataDirs :: "DataDirectory list option"

definition newOptHeader :: OptHeader where
  "newOptHeader = \<lparr> oh_OptHeader32 = newOptHeader32, oh_DataDirs = None \<rparr>"

record SectHeader =
  sh_Name :: "byte list"
  sh_VirtSize :: uint32
  sh_RelAddr :: uint32
  sh_Size :: uint32
  sh_Offset :: uint32
  sh_RelocsOffset :: uint32
  sh_LineNumsOffset :: uint32
  sh_NReloc :: uint16
  sh_NLineNum :: uint16
  sh_Flags :: uint32

definition decodeSectHeader :: "byte list \<Rightarrow> SectHeader" where
  "decodeSectHeader b =
     \<lparr> sh_Name = map (u8 b) [0..<8], sh_VirtSize = u32 b 8, sh_RelAddr = u32 b 12,
       sh_Size = u32 b 16, sh_Offset = u32 b 20, sh_RelocsOffset = u32 b 24,
       sh_LineNumsOffset = u32 b 28, sh_NReloc = u16 b 32, sh_NLineNum = u16 b 34,
       sh_Flags = u32 b 36 \<rparr>"

text \<open>\<open>new(SectHeader)\<close>: every field is zero, the name eight zero bytes.\<close>

definition newSectHeader :: SectHeader where
  "newSectHeader = decodeSectHeader []"

section \<open>The file and its cached headers\<close>

text \<open>
  \<open>File\<close>: a nil pointer or nil slice is \<open>None\<close>. The section headers are a slice
  of pointers, each of which may itself be nil. \<open>r\<close> is the content of the
  underlying reader. \<open>effects\<close> is not a field of the Go struct: it records what
  the calls on this file have done so far.
\<close>

record File =
  doshdr :: "DOSHeader option"
  fileHdr :: "FileHeader option"
  opthdr :: "OptHeader option"
  sectHdrs :: "SectHeader option list option"
  overlay :: "byte list option"
  r :: "byte list"
  effects :: "effect list"

definition New :: "byte list \<Rightarrow> File" where
  "New src =
     \<lparr> doshdr = None, fileHdr = None, opthdr = None, sectHdrs = None,
       overlay = None, r = src, effects = [] \<rparr>"

definition emit :: "effect \<Rightarrow> File \<Rightarrow> File" where
  "emit e file = file\<lparr>effects := effects file @ [e]\<rparr>"

text \<open>
  \<open>binary.Read(sr, binary.LittleEndian, &v)\<close> for a value of \<open>k\<close> bytes: it fills a
  buffer of \<open>k\<close> bytes with \<open>io.ReadFull\<close> and decodes only when that succeeded. The
  decoding is left to the caller, which knows the type.
\<close>

definition binary_Read ::
  "File \<Rightarrow> SectionReader \<Rightarrow> nat \<Rightarrow> File \<times> SectionReader \<times> (ioerr + byte list)" where
  "binary_Read file sr k =
     (case ReadFull (r file) sr k of
        (res, sr') \<Rightarrow> (emit (Read (sr_off sr) k) file, sr', res))"

subsection \<open>DOS header\<close>

definition mz :: uint16 where "mz = 0x5A4D"

text \<open>The two loops over \<open>Res\<close> and \<open>Res2\<close> that print a warning for each non-zero entry.\<close>

definition logReserved :: "uint16 list \<Rightarrow> File \<Rightarrow> File" where
  "logReserved vs file =
     foldl (\<lambda>f (i, v). if v \<noteq> 0 then emit (LogDOSReserved i (unat v)) f else f)
       file (enumerate 0 vs)"

definition parseDOSHeader :: "File \<Rightarrow> File \<times> failure option" where
  "parseDOSHeader file =
     (let sr = NewSectionReader 0 dosHdrSize
      in case binary_Read file sr 2 of
        (file, sr, Inl e) \<Rightarrow> (file, Some (Error (DOSReadSignature e)))
      | (file, sr, Inr bs) \<Rightarrow>
          (let magic = u16 bs 0
           in if magic \<noteq> mz then (file, Some (Error (DOSInvalidSignature magic)))
              else
                (let file = file\<lparr>doshdr := Some newDOSHeader\<rparr>
                 in case binary_Read file sr 62 of
                   (file, sr, Inl e) \<Rightarrow> (file, Some (Error (DOSReadHeader e)))
                 | (file, sr, Inr bs) \<Rightarrow>
                     (let hdr = decodeDOSHeader bs;
                          file = file\<lparr>doshdr := Some hdr\<rparr>;
                          file = logReserved (dh_Res hdr) file;
                          file = logReserved (dh_Res2 hdr) file
                      in (file, None)))))"

definition File_DOSHeader :: "File \<Rightarrow> File \<times> (failure + DOSHeader option)" where
  "File_DOSHeader file =
     (case doshdr file of
        None \<Rightarrow>
          (case parseDOSHeader file of
             (file, Some err) \<Rightarrow> (file, Inl err)
           | (file, None) \<Rightarrow> (file, Inr (doshdr file)))
      | Some h \<Rightarrow> (file, Inr (Some h)))"

text \<open>
  \<open>DOSStub\<close>. \<open>peoff - dosHdrSize\<close> is a \<open>uint32\<close> subtraction (the constant takes
  the type of \<open>peoff\<close>); the difference is widened to \<open>int64\<close> afterwards.
\<close>

definition File_DOSStub :: "File \<Rightarrow> File \<times> (failure + byte list option)" where
  "File_DOSStub file =
     (case File_DOSHeader file of
        (file, Inl err) \<Rightarrow> (file, Inl err)
      | (file, Inr None) \<Rightarrow> (file, Inl (Panic NilPointerDereference))
      | (file, Inr (Some dh)) \<Rightarrow>
          (let peoff = dh_PEHdrOffset dh;
               stubSize = uint (peoff - of_nat dosHdrSize)
           in if stubSize \<le> 0 then (file, Inr None)
              else
                (let stubOff = dosHdrSize;
                     sr = NewSectionReader stubOff (nat stubSize);
                     file = emit (Make (nat stubSize)) file;
                     file = emit (Read (sr_off sr) (nat stubSize)) file
                 in case ReadFull (r file) sr (nat stubSize) of
                   (Inl e, sr) \<Rightarrow> (file, Inl (Error (StubRead e)))
                 | (Inr dosStub, sr) \<Rightarrow> (file, Inr (Some dosStub)))))"

subsection \<open>COFF file header\<close>

definition pe :: uint32 where "pe = 0x00004550"

definition parseFileHeader :: "File \<Rightarrow> File \<times> failure option" where
  "parseFileHeader file =
     (case File_DOSHeader file of
        (file, Inl err) \<Rightarrow> (file, Some err)
      | (file, Inr None) \<Rightarrow> (file, Some (Panic NilPointerDereference))
      | (file, Inr (Some dh)) \<Rightarrow>
          (let peoff = unat (dh_PEHdrOffset dh);
               sr = NewSectionReader peoff fileHdrSize
           in case binary_Read file sr 4 of
             (file, sr, Inl e) \<Rightarrow> (file, Some (Error (FileReadSignature e)))
           | (file, sr, Inr bs) \<Rightarrow>
               (let magic = u32 bs 0
                in if magic \<noteq> pe then (file, Some (Error (FileInvalidSignature magic)))
                   else
                     (let file = file\<lparr>fileHdr := Some newFileHeader\<rparr>
                      in case binary_Read file sr 20 of
                        (file, sr, Inl e) \<Rightarrow> (file, Some (Error (FileReadHeader e)))
                      | (file, sr, Inr bs) \<Rightarrow>
                          (file\<lparr>fileHdr := Some (decodeFileHeader bs)\<rparr>, None)))))"

definition File_FileHeader :: "File \<Rightarrow> File \<times> (failure + FileHeader option)" where
  "File_FileHeader file =
     (case fileHdr file of
        None \<Rightarrow>
          (case parseFileHeader file of
             (file, Some err) \<Rightarrow> (file, Inl err)
           | (file, None) \<Rightarrow> (file, Inr (fileHdr file)))
      | Some h \<Rightarrow> (file, Inr (Some h)))"

subsection \<open>Optional header and data directories\<close>

text \<open>
  \<open>parseOptHeader\<close>. \<open>file.opthdr\<close> is set to a fresh zero header before the first
  read; the slice of data directories is made with the count just decoded and is then
  filled by one \<open>binary.Read\<close> of \<open>8 * NDataDir\<close> bytes from the same section reader.

  \<open>mem\<close> is not an argument of the Go function: it is the number of bytes that the
  runtime can still allocate when the call starts. \<open>make([]DataDirectory, n)\<close> asks for
  \<open>8 * n\<close> bytes, and \<open>binary.Read\<close> then makes a buffer of the same \<open>8 * n\<close>
  bytes while the slice is live; a request that the runtime cannot serve ends the
  program with the fatal error \<open>out of memory\<close>. (On a 64-bit machine \<open>8 * n\<close> is
  below the limit at which \<open>make\<close> panics instead.) The accessor \<open>OptHeader\<close> and
  \<open>Parse\<close>, which call \<open>parseOptHeader\<close>, pass \<open>mem\<close> on.
\<close>

definition decodeDataDirs :: "nat \<Rightarrow> byte list \<Rightarrow> DataDirectory list" where
  "decodeDataDirs n bs = map (\<lambda>i. decodeDataDirectory (take 8 (drop (8 * i) bs))) [0..<n]"

definition parseOptHeader :: "nat \<Rightarrow> File \<Rightarrow> File \<times> failure option" where
  "parseOptHeader mem file =
     (case File_DOSHeader file of
        (file, Inl err) \<Rightarrow> (file, Some err)
      | (file, Inr None) \<Rightarrow> (file, Some (Panic NilPointerDereference))
      | (file, Inr (Some dh)) \<Rightarrow>
          (let optoff = unat (dh_PEHdrOffset dh) + fileHdrSize;
               sr = NewSectionReader optoff maxOptHdrSize;
               file = file\<lparr>opthdr := Some newOptHeader\<rparr>
           in case binary_Read file sr optHdr32Size of
             (file, sr, Inl e) \<Rightarrow> (file, Some (Error (OptReadHeader e)))
           | (file, sr, Inr bs) \<Rightarrow>
               (let hdr32 = decodeOptHeader32 bs;
                    file = file\<lparr>opthdr := Some \<lparr>oh_OptHeader32 = hdr32, oh_DataDirs = None\<rparr>\<rparr>;
                    file = (if oh_Res hdr32 \<noteq> 0
                            then emit (LogOptReserved (unat (oh_Res hdr32))) file else file);
                    n = unat (oh_NDataDir hdr32);
                    file = emit (Make n) file
                in if mem < 8 * n then (file, Some (Fatal OutOfMemory))
                   else
                     (let file = file\<lparr>opthdr := Some \<lparr>oh_OptHeader32 = hdr32,
                            oh_DataDirs = Some (replicate n (decodeDataDirectory []))\<rparr>\<rparr>
                      in if mem - 8 * n < 8 * n then (file, Some (Fatal OutOfMemory))
                         else
                           (case binary_Read file sr (8 * n) of
                              (file, sr, Inl e) \<Rightarrow> (file, Some (Error (OptReadDataDirs e)))
                            | (file, sr, Inr bs) \<Rightarrow>
                                (file\<lparr>opthdr := Some \<lparr>oh_OptHeader32 = hdr32,
                                   oh_DataDirs = Some (decodeDataDirs n bs)\<rparr>\<rparr>, None))))))"

definition File_OptHeader :: "nat \<Rightarrow> File \<Rightarrow> File \<times> (failure + OptHeader option)" where
  "File_OptHeader mem file =
     (case opthdr file of
        None \<Rightarrow>
          (case parseOptHeader mem file of
             (file, Some err) \<Rightarrow> (file, Inl err)
           | (file, None) \<Rightarrow> (file, Inr (opthdr file)))
      | Some h \<Rightarrow> (file, Inr (Some h)))"

subsection \<open>Section headers\<close>

definition setSectHdr :: "nat \<Rightarrow> SectHeader \<Rightarrow> File \<Rightarrow> File" where
  "setSectHdr i h file = file\<lparr>sectHdrs := map_option (\<lambda>hs. hs[i := Some h]) (sectHdrs file)\<rparr>"

text \<open>
  The loop \<open>for i := range file.sectHdrs\<close>: \<open>i\<close> is the index, the last argument the
  number of entries still to read.
\<close>

fun readSectHeaders :: "File \<Rightarrow> SectionReader \<Rightarrow> nat \<Rightarrow> nat \<Rightarrow> File \<times> failure option" where
  "readSectHeaders file sr i 0 = (file, None)"
| "readSectHeaders file sr i (Suc k) =
     (let file = setSectHdr i newSectHeader file
      in case binary_Read file sr sectHdrSize of
        (file, sr, Inl e) \<Rightarrow> (file, Some (Error (SectReadHeader e)))
      | (file, sr, Inr bs) \<Rightarrow>
          readSectHeaders (setSectHdr i (decodeSectHeader bs) file) sr (Suc i) k)"

definition parseSectHeaders :: "File \<Rightarrow> File \<times> failure option" where
  "parseSectHeaders file =
     (case File_DOSHeader file of
        (file, Inl err) \<Rightarrow> (file, Some err)
      | (file, Inr None) \<Rightarrow> (file, Some (Panic NilPointerDereference))
      | (file, Inr (Some dh)) \<Rightarrow>
          (let optoff = unat (dh_PEHdrOffset dh) + fileHdrSize
           in case File_FileHeader file of
             (file, Inl err) \<Rightarrow> (file, Some err)
           | (file, Inr None) \<Rightarrow> (file, Some (Panic NilPointerDereference))
           | (file, Inr (Some fh)) \<Rightarrow>
               (let sectHdrsOff = optoff + unat (fh_OptHdrSize fh);
                    sectHdrsSize = unat (fh_NSection fh) * sectHdrSize;
                    sr = NewSectionReader sectHdrsOff sectHdrsSize;
                    file = emit (Make (unat (fh_NSection fh))) file;
                    file = file\<lparr>sectHdrs := Some (replicate (unat (fh_NSection fh)) None)\<rparr>
                in readSectHeaders file sr 0 (unat (fh_NSection fh)))))"

definition File_SectHeaders :: "File \<Rightarrow> File \<times> (failure + SectHeader option list option)" where
  "File_SectHeaders file =
     (case sectHdrs file of
        None \<Rightarrow>
          (case parseSectHeaders file of
             (file, Some err) \<Rightarrow> (file, Inl err)
           | (file, None) \<Rightarrow> (file, Inr (sectHdrs file)))
      | Some hs \<Rightarrow> (file, Inr (Some hs)))"

text \<open>
  \<open>Section\<close>, for a header that is not nil: everything \<open>ioutil.ReadAll\<close> gets
  from the section's window.
\<close>

definition File_Section :: "File \<Rightarrow> SectHeader \<Rightarrow> File \<times> (failure + byte list)" where
  "File_Section file sectHdr =
     (let sr = NewSectionReader (unat (sh_Offset sectHdr)) (unat (sh_Size sectHdr))
      in (emit (Read (sr_off sr) (unat (sh_Size sectHdr))) file, Inr (ReadAll (r file) sr)))"

subsection \<open>Overlay\<close>

text \<open>
  The loop that finds the end of the image. \<open>sectHdr.Offset + sectHdr.Size\<close> is a
  \<open>uint32\<close> sum, widened afterwards; a nil entry is dereferenced.
\<close>

fun overlayStartLoop :: "SectHeader option list \<Rightarrow> nat \<Rightarrow> panic + nat" where
  "overlayStartLoop [] overlayStart = Inr overlayStart"
| "overlayStartLoop (None # hs) overlayStart = Inl NilPointerDereference"
| "overlayStartLoop (Some sectHdr # hs) overlayStart =
     (let sectStart = unat (sh_Offset sectHdr + sh_Size sectHdr)
      in overlayStartLoop hs (if sectStart > overlayStart then sectStart else overlayStart))"

definition parseOverlay :: "File \<Rightarrow> File \<times> failure option" where
  "parseOverlay file =
     (case File_SectHeaders file of
        (file, Inl err) \<Rightarrow> (file, Some err)
      | (file, Inr shs) \<Rightarrow>
          (case overlayStartLoop (case shs of None \<Rightarrow> [] | Some hs \<Rightarrow> hs) 0 of
             Inl p \<Rightarrow> (file, Some (Panic p))
           | Inr overlayStart \<Rightarrow>
               (let file = emit SeekEnd file;
                    overlayEnd = int (length (r file));
                    overlaySize = overlayEnd - int overlayStart
                in if overlaySize < 0 then (file, Some (Panic MakesliceLenOutOfRange))
                   else
                     (let file = emit (Make (nat overlaySize)) file;
                          file = emit (Read overlayStart (nat overlaySize)) file
                      in case ReadAt (r file) (nat overlaySize) overlayStart of
                        (bs, Some e) \<Rightarrow> (file, Some (Error (IOError e)))
                      | (bs, None) \<Rightarrow> (file\<lparr>overlay := Some bs\<rparr>, None)))))"

definition File_Overlay :: "File \<Rightarrow> File \<times> (failure + byte list option)" where
  "File_Overlay file =
     (case overlay file of
        None \<Rightarrow>
          (case parseOverlay file of
             (file, Some err) \<Rightarrow> (file, Inl err)
           | (file, None) \<Rightarrow> (file, Inr (overlay file)))
      | Some ov \<Rightarrow> (file, Inr (Some ov)))"

subsection \<open>Parsing all headers\<close>

definition File_Parse :: "nat \<Rightarrow> File \<Rightarrow> File \<times> failure option" where
  "File_Parse mem file =
     (case parseDOSHeader file of
        (file, Some err) \<Rightarrow> (file, Some err)
      | (file, None) \<Rightarrow>
          (case parseFileHeader file of
             (file, Some err) \<Rightarrow> (file, Some err)
           | (file, None) \<Rightarrow>
               (case fileHdr file of
                  None \<Rightarrow> (file, Some (Panic NilPointerDereference))
                | Some fh \<Rightarrow>
                    (case (if fh_OptHdrSize fh > 0 then parseOptHeader mem file else (file, None)) of
                       (file, Some err) \<Rightarrow> (file, Some err)
                     | (file, None) \<Rightarrow> parseSectHeaders file))))"

section \<open>Example images\<close>

text \<open>
  Small images for the concrete statements below: a DOS header of 64 bytes that holds
  only the signature and \<open>PEHdrOffset\<close>, a signature and COFF file header of 24
  bytes with a section count and an optional header size, and a section header of 40
  bytes with a raw size and a raw offset.
\<close>

definition dosImage :: "byte \<Rightarrow> byte list" where
  "dosImage peoff = [0x4D, 0x5A] @ replicate 58 0 @ [peoff, 0, 0, 0]"

definition coffImage :: "byte list \<Rightarrow> byte \<Rightarrow> byte \<Rightarrow> byte list" where
  "coffImage sig nsect optsize =
     sig @ [0x4C, 0x01, nsect, 0] @ replicate 12 0 @ [optsize, 0, 0, 0]"

definition sectImage :: "byte \<Rightarrow> byte \<Rightarrow> byte list" where
  "sectImage sz off = replicate 16 0 @ [sz, 0, 0, 0] @ [off, 0, 0, 0] @ replicate 16 0"

definition peSig :: "byte list" where "peSig = [0x50, 0x45, 0, 0]"

text \<open>
  The memory that the runtime can still allocate is given in units of \<open>2^30\<close> bytes;
  the examples have 1 GiB where nothing else is said.
\<close>

definition GiB :: nat where "GiB = 2 ^ 30"

text \<open>
  \<open>imgHugeDirs\<close> ends with a fixed optional header whose \<open>NDataDir\<close> is
  \<open>0xFFFFFFFF\<close>, and declares two sections; \<open>imgManyDirs\<close> is the same image with
  \<open>NDataDir = 100\<close>; \<open>imgNoTable\<close> declares one section
  and ends after the file header; \<open>imgTwoSect\<close> has two sections of 8 and 4 bytes
  with their data; \<open>imgNoSect\<close> has no section and three trailing bytes; \<open>imgPastEnd\<close> has
  one section that claims 200 bytes in a file of 128; \<open>imgNoOpt\<close> has no optional
  header, one section header and 56 bytes of section data; \<open>imgBadPE\<close> has a wrong
  PE signature; \<open>imgStub\<close> is a DOS header alone with \<open>PEHdrOffset = 0\<close>;
  \<open>imgLongStub\<close> is the same DOS header followed by zero bytes up to a length of
  \<open>2^32\<close>; \<open>shShort\<close> is a section header with raw size 8 and raw offset 0.
\<close>

definition imgHugeDirs :: "byte list" where
  "imgHugeDirs = dosImage 64 @ coffImage peSig 2 96 @ replicate 92 0 @ [0xFF, 0xFF, 0xFF, 0xFF]"

definition imgManyDirs :: "byte list" where
  "imgManyDirs = dosImage 64 @ coffImage peSig 2 96 @ replicate 92 0 @ [100, 0, 0, 0]"

definition imgNoTable :: "byte list" where
  "imgNoTable = dosImage 64 @ coffImage peSig 1 0"

definition imgTwoSect :: "byte list" where
  "imgTwoSect =
     dosImage 64 @ coffImage peSig 2 0 @ sectImage 8 168 @ sectImage 4 176 @ replicate 12 0x41"

definition imgNoSect :: "byte list" where
  "imgNoSect = dosImage 64 @ coffImage peSig 0 0 @ [1, 2, 3]"

definition imgPastEnd :: "byte list" where
  "imgPastEnd = dosImage 64 @ coffImage peSig 1 0 @ sectImage 200 0"

definition imgNoOpt :: "byte list" where
  "imgNoOpt = dosImage 64 @ coffImage peSig 1 0 @ sectImage 56 128 @ replicate 56 0"

definition imgBadPE :: "byte list" where
  "imgBadPE = dosImage 64 @ coffImage [0x50, 0x45, 0, 1] 1 0 @ replicate 96 0"

definition imgStub :: "byte list" where
  "imgStub = dosImage 0"

definition imgLongStub :: "byte list" where
  "imgLongStub = dosImage 0 @ replicate 4294967232 0"

definition shShort :: SectHeader where
  "shShort = newSectHeader\<lparr>sh_Size := 8\<rparr>"

section \<open>Properties\<close>

subsection \<open>Frame pointer omission records: the decoded fields\<close>

lemma and_7_unat: "unat ((b::byte) AND 0x07) = unat b mod 8"
proof -
  have "b AND 0x07 = take_bit 3 b"
    by (simp add: take_bit_eq_mask mask_eq_exp_minus_1)
  then show ?thesis
    by (simp add: unsigned_take_bit_eq take_bit_eq_mod unat_mod_distrib)
qed

lemma bit3_test: "((b::byte) AND 0x08 \<noteq> 0) = bit b 3"
  using bit_iff_and_push_bit_not_eq_0 [of b 3] by simp

lemma bit4_test: "((b::byte) AND 0x10 \<noteq> 0) = bit b 4"
  using bit_iff_and_push_bit_not_eq_0 [of b 4] by simp

lemma bit5_field: "drop_bit 5 ((b::byte) AND 0x20) = (if bit b 5 then 1 else 0)"
proof -
  have m: "(0x20::byte) = push_bit 5 (mask 1)"
    by (simp add: mask_eq_exp_minus_1)
  show ?thesis
    unfolding m
    apply (rule bit_word_eqI)
    apply (auto simp add: bit_simps)
    apply (metis add.right_neutral gr0I)
    done
qed

lemma bits67_field: "drop_bit 6 ((b::byte) AND 0xC0) = drop_bit 6 b"
proof -
  have m: "(0xC0::byte) = push_bit 6 (mask 2)"
    by (simp add: mask_eq_exp_minus_1)
  show ?thesis
    unfolding m
    apply (rule bit_word_eqI)
    apply (auto simp add: bit_simps dest: bit_imp_le_length)
    done
qed

lemma drop_bit_6_unat: "unat (drop_bit 6 (b::byte)) = unat b div 64"
  by (simp add: drop_bit_eq_div unat_div_distrib)

lemma widen32_times_4: "unat ((ucast (x::uint32) :: uint64) * 4) = 4 * unat x"
proof -
  have "unat x < 2 ^ 32"
    using unsigned_less [of x] by simp
  then show ?thesis
    by (simp add: unat_word_ariths unsigned_ucast_eq take_bit_eq_mod)
qed

lemma widen16_times_4: "unat ((ucast (x::uint16) :: uint32) * 4) = 4 * unat x"
proof -
  have "unat x < 2 ^ 16"
    using unsigned_less [of x] by simp
  then show ?thesis
    by (simp add: unat_word_ariths unsigned_ucast_eq take_bit_eq_mod)
qed

lemma bit_unat_div: "bit (b::byte) n = odd (unat b div 2 ^ n)"
proof -
  have "bit b n = bit (unat b) n"
    by (simp add: bit_unsigned_iff)
  also have "\<dots> = odd (unat b div 2 ^ n)"
    by (rule bit_iff_odd)
  finally show ?thesis .
qed

lemma frame_is_3: "(drop_bit 6 (b::byte) = 3) = (bit b 6 \<and> bit b 7)"
proof -
  have "(drop_bit 6 b = 3) = (unat (drop_bit 6 b) = 3)"
    by (simp add: word_unat_eq_iff)
  also have "\<dots> = (unat b div 64 = 3)"
    by (simp only: drop_bit_6_unat)
  finally have e: "(drop_bit 6 b = 3) = (unat b div 64 = 3)" .
  have b6: "bit b 6 = odd (unat b div 64)"
    using bit_unat_div [of _ 6] bit_unat_div [of _ 7] bit_unat_div [of _ 5] by simp
  have b7: "bit b 7 = odd (unat b div 128)"
    using bit_unat_div [of _ 6] bit_unat_div [of _ 7] bit_unat_div [of _ 5] by simp
  have lt: "unat b < 256"
    using unsigned_less [of b] by simp
  have d: "unat b div 128 = (unat b div 64) div 2"
    by (simp add: div_mult2_eq)
  have "unat b div 64 < 4"
    using lt by simp
  then have "(unat b div 64 = 3) = (odd (unat b div 64) \<and> odd ((unat b div 64) div 2))"
    by (cases "unat b div 64 = 0"; cases "unat b div 64 = 1"; cases "unat b div 64 = 2";
        cases "unat b div 64 = 3") auto
  then show ?thesis
    by (simp add: e b6 b7 d)
qed

text \<open>
  C7. \<open>ParseFPOData\<close> splits the bitfield byte into \<open>Regs\<close> (bits 0 to 2),
  \<open>HasSEH\<close> (bit 3), \<open>UseBP\<close> (bit 4), \<open>Reserved\<close> (bit 5) and \<open>Frame\<close> (bits 6
  and 7, which is \<open>FrameTypeNonFPO\<close> exactly when both are set); the decoded
  \<open>NLocals\<close> and \<open>Params\<close> are four times the raw values, without wrap-around; and
  \<open>OffsetStart\<close>, \<open>FuncSize\<close> and \<open>Prolog\<close> are copied.
\<close>

theorem ParseFPOData_fields:
  "unat (fpo_Regs (ParseFPOData raw)) = unat (raw_Bitfield raw) mod 8
   \<and> fpo_HasSEH (ParseFPOData raw) = bit (raw_Bitfield raw) 3
   \<and> fpo_UseBP (ParseFPOData raw) = bit (raw_Bitfield raw) 4
   \<and> unat (fpo_Reserved (ParseFPOData raw)) = unat (raw_Bitfield raw) div 32 mod 2
   \<and> unat (fpo_Frame (ParseFPOData raw)) = unat (raw_Bitfield raw) div 64
   \<and> (fpo_Frame (ParseFPOData raw) = FrameTypeNonFPO)
       = (bit (raw_Bitfield raw) 6 \<and> bit (raw_Bitfield raw) 7)
   \<and> unat (fpo_NLocals (ParseFPOData raw)) = 4 * unat (raw_NLocals raw)
   \<and> unat (fpo_Params (ParseFPOData raw)) = 4 * unat (raw_Params raw)
   \<and> fpo_OffsetStart (ParseFPOData raw) = raw_OffsetStart raw
   \<and> fpo_FuncSize (ParseFPOData raw) = raw_FuncSize raw
   \<and> fpo_Prolog (ParseFPOData raw) = raw_Prolog raw"
proof -
  have r5: "unat (drop_bit 5 (raw_Bitfield raw AND 0x20)) = unat (raw_Bitfield raw) div 32 mod 2"
  proof -
    have "unat (drop_bit 5 (raw_Bitfield raw AND 0x20))
            = unat (if bit (raw_Bitfield raw) 5 then 1 else 0 :: byte)"
      by (simp only: bit5_field)
    also have "\<dots> = unat (raw_Bitfield raw) div 32 mod 2"
      using bit_unat_div [of "raw_Bitfield raw" 5] by (auto simp add: odd_iff_mod_2_eq_one)
    finally show ?thesis .
  qed
  show ?thesis
    unfolding ParseFPOData_def Let_def FrameTypeNonFPO_def
    by (simp add: and_7_unat bit3_test bit4_test r5 bits67_field drop_bit_6_unat
        frame_is_3 widen32_times_4 widen16_times_4 del: drop_bit_and)
qed

subsection \<open>Readers and the effects record\<close>

lemma emit_fields [simp]:
  "doshdr (emit e f) = doshdr f" "fileHdr (emit e f) = fileHdr f"
  "opthdr (emit e f) = opthdr f" "sectHdrs (emit e f) = sectHdrs f"
  "overlay (emit e f) = overlay f" "r (emit e f) = r f"
  "effects (emit e f) = effects f @ [e]"
  by (simp_all add: emit_def)

lemma foldl_log_frame:
  "\<exists>es. foldl (\<lambda>f (i, v). if v \<noteq> 0 then emit (LogDOSReserved i (unat v)) f else f) f xs
         = f\<lparr>effects := effects f @ es\<rparr>"
proof (induction xs arbitrary: f)
  case Nil
  show ?case by (rule exI [of _ "[]"]) simp
next
  case (Cons x xs)
  obtain i v where x: "x = (i, v)" by (cases x)
  let ?g = "if v \<noteq> 0 then emit (LogDOSReserved i (unat v)) f else f"
  obtain es where es: "foldl (\<lambda>f (i, v). if v \<noteq> 0 then emit (LogDOSReserved i (unat v)) f else f) ?g xs
         = ?g\<lparr>effects := effects ?g @ es\<rparr>"
    using Cons.IH [of ?g] by blast
  show ?case
  proof (cases "v = 0")
    case True
    with es x show ?thesis by auto
  next
    case False
    with es x show ?thesis
      by (intro exI [of _ "LogDOSReserved i (unat v) # es"]) (simp add: emit_def)
  qed
qed

lemma logReserved_frame: "\<exists>es. logReserved vs f = f\<lparr>effects := effects f @ es\<rparr>"
  unfolding logReserved_def by (rule foldl_log_frame)

lemma logReserved_fields [simp]:
  "doshdr (logReserved vs f) = doshdr f" "fileHdr (logReserved vs f) = fileHdr f"
  "opthdr (logReserved vs f) = opthdr f" "sectHdrs (logReserved vs f) = sectHdrs f"
  "overlay (logReserved vs f) = overlay f" "r (logReserved vs f) = r f"
  using logReserved_frame [of vs f] by auto

lemma logReserved_effects: "\<exists>es. effects (logReserved vs f) = effects f @ es"
  using logReserved_frame [of vs f] by auto

lemma binary_Read_eq:
  "binary_Read f sr k =
     (emit (Read (sr_off sr) k) f, snd (ReadFull (r f) sr k), fst (ReadFull (r f) sr k))"
  by (simp add: binary_Read_def split: prod.splits)

lemma length_sr_avail:
  "length (sr_avail src sr) = min (sr_limit sr - sr_off sr) (length src - sr_off sr)"
  by (simp add: sr_avail_def)

lemma ReadFull_ok:
  "k \<le> length src - sr_off sr \<Longrightarrow> k \<le> sr_limit sr - sr_off sr \<Longrightarrow>
   ReadFull src sr k = (Inr (take k (drop (sr_off sr) src)), sr\<lparr>sr_off := sr_off sr + k\<rparr>)"
  by (simp add: ReadFull_def Let_def length_sr_avail) (simp add: sr_avail_def min_def)

lemma ReadFull_fail:
  "\<not> (k \<le> length src - sr_off sr \<and> k \<le> sr_limit sr - sr_off sr) \<Longrightarrow>
   fst (ReadFull src sr k) = Inl (if sr_avail src sr = [] then EOF else ErrUnexpectedEOF)"
  by (auto simp add: ReadFull_def Let_def length_sr_avail)

subsection \<open>DOS header\<close>

lemma NewSectionReader_simps [simp]:
  "sr_off (NewSectionReader off n) = off" "sr_limit (NewSectionReader off n) = off + n"
  by (simp_all add: NewSectionReader_def)

lemma parseDOSHeader_short:
  "length (r f) < 2 \<Longrightarrow>
   parseDOSHeader f =
     (emit (Read 0 2) f,
      Some (Error (DOSReadSignature (if r f = [] then EOF else ErrUnexpectedEOF))))"
  unfolding parseDOSHeader_def binary_Read_eq Let_def
  by (simp add: ReadFull_def Let_def length_sr_avail dosHdrSize_def)
     (simp add: sr_avail_def dosHdrSize_def)

lemma parseDOSHeader_badsig:
  "2 \<le> length (r f) \<Longrightarrow> u16 (take 2 (r f)) 0 \<noteq> mz \<Longrightarrow>
   parseDOSHeader f =
     (emit (Read 0 2) f, Some (Error (DOSInvalidSignature (u16 (take 2 (r f)) 0))))"
  unfolding parseDOSHeader_def binary_Read_eq Let_def
  by (simp add: ReadFull_ok dosHdrSize_def)

lemma parseDOSHeader_trunc:
  "2 \<le> length (r f) \<Longrightarrow> u16 (take 2 (r f)) 0 = mz \<Longrightarrow> length (r f) < 64 \<Longrightarrow>
   parseDOSHeader f =
     (emit (Read 2 62) ((emit (Read 0 2) f)\<lparr>doshdr := Some newDOSHeader\<rparr>),
      Some (Error (DOSReadHeader (if length (r f) = 2 then EOF else ErrUnexpectedEOF))))"
  unfolding parseDOSHeader_def binary_Read_eq Let_def
  by (simp add: ReadFull_ok dosHdrSize_def ReadFull_fail)
     (auto simp add: sr_avail_def emit_def)

lemma parseDOSHeader_ok:
  "64 \<le> length (r f) \<Longrightarrow> u16 (take 2 (r f)) 0 = mz \<Longrightarrow>
   parseDOSHeader f =
     (logReserved (dh_Res2 (decodeDOSHeader (take 62 (drop 2 (r f)))))
        (logReserved (dh_Res (decodeDOSHeader (take 62 (drop 2 (r f)))))
           ((emit (Read 2 62) (emit (Read 0 2) f))
              \<lparr>doshdr := Some (decodeDOSHeader (take 62 (drop 2 (r f))))\<rparr>)),
      None)"
  unfolding parseDOSHeader_def binary_Read_eq Let_def
  by (simp add: ReadFull_ok dosHdrSize_def) (simp add: emit_def numeral_2_eq_2)

lemma parseDOSHeader_frame:
  assumes "parseDOSHeader f = (f', x)"
  shows "r f' = r f \<and> fileHdr f' = fileHdr f \<and> opthdr f' = opthdr f
         \<and> sectHdrs f' = sectHdrs f \<and> overlay f' = overlay f
         \<and> (\<exists>es. effects f' = effects f @ es)"
proof -
  consider (a) "length (r f) < 2"
    | (b) "2 \<le> length (r f)" "u16 (take 2 (r f)) 0 \<noteq> mz"
    | (c) "2 \<le> length (r f)" "u16 (take 2 (r f)) 0 = mz" "length (r f) < 64"
    | (d) "64 \<le> length (r f)" "u16 (take 2 (r f)) 0 = mz"
    by linarith
  then show ?thesis
  proof cases
    case a
    then show ?thesis using assms by (auto simp add: parseDOSHeader_short)
  next
    case b
    then show ?thesis using assms by (auto simp add: parseDOSHeader_badsig)
  next
    case c
    then show ?thesis using assms by (auto simp add: parseDOSHeader_trunc)
  next
    case d
    let ?h = "decodeDOSHeader (take 62 (drop 2 (r f)))"
    let ?g = "(emit (Read 2 62) (emit (Read 0 2) f))\<lparr>doshdr := Some ?h\<rparr>"
    obtain es1 where e1: "effects (logReserved (dh_Res ?h) ?g) = effects ?g @ es1"
      using logReserved_effects by blast
    obtain es2 where e2: "effects (logReserved (dh_Res2 ?h) (logReserved (dh_Res ?h) ?g))
        = effects (logReserved (dh_Res ?h) ?g) @ es2"
      using logReserved_effects by blast
    from d assms have f': "f' = logReserved (dh_Res2 ?h) (logReserved (dh_Res ?h) ?g)"
      by (simp add: parseDOSHeader_ok)
    show ?thesis
      unfolding f' using e1 e2 by simp
  qed
qed

lemma parseDOSHeader_success:
  assumes "parseDOSHeader f = (f', None)"
  shows "64 \<le> length (r f) \<and> u16 (take 2 (r f)) 0 = mz
         \<and> doshdr f' = Some (decodeDOSHeader (take 62 (drop 2 (r f))))"
proof -
  consider (a) "length (r f) < 2"
    | (b) "2 \<le> length (r f)" "u16 (take 2 (r f)) 0 \<noteq> mz"
    | (c) "2 \<le> length (r f)" "u16 (take 2 (r f)) 0 = mz" "length (r f) < 64"
    | (d) "64 \<le> length (r f)" "u16 (take 2 (r f)) 0 = mz"
    by linarith
  then show ?thesis
  proof cases
    case a
    then show ?thesis using assms by (simp add: parseDOSHeader_short)
  next
    case b
    then show ?thesis using assms by (simp add: parseDOSHeader_badsig)
  next
    case c
    then show ?thesis using assms by (simp add: parseDOSHeader_trunc)
  next
    case d
    then show ?thesis using assms by (auto simp add: parseDOSHeader_ok)
  qed
qed

lemma File_DOSHeader_cached: "doshdr f = Some h \<Longrightarrow> File_DOSHeader f = (f, Inr (Some h))"
  by (simp add: File_DOSHeader_def)

lemma File_DOSHeader_frame:
  assumes "File_DOSHeader f = (f', x)"
  shows "r f' = r f \<and> fileHdr f' = fileHdr f \<and> opthdr f' = opthdr f
         \<and> sectHdrs f' = sectHdrs f \<and> overlay f' = overlay f
         \<and> (\<exists>es. effects f' = effects f @ es)"
proof (cases "doshdr f")
  case None
  obtain g y where p: "parseDOSHeader f = (g, y)" by (cases "parseDOSHeader f")
  with None assms have "f' = g"
    by (auto simp add: File_DOSHeader_def split: option.splits)
  with parseDOSHeader_frame [OF p] show ?thesis by simp
next
  case (Some h)
  with assms show ?thesis by (simp add: File_DOSHeader_def)
qed

lemma File_DOSHeader_result:
  assumes "File_DOSHeader f = (f', Inr x)"
  shows "x = doshdr f' \<and> x \<noteq> None"
proof (cases "doshdr f")
  case None
  obtain g y where p: "parseDOSHeader f = (g, y)" by (cases "parseDOSHeader f")
  with None assms have "y = None \<and> f' = g \<and> x = doshdr g"
    by (auto simp add: File_DOSHeader_def split: option.splits)
  with parseDOSHeader_success [of f g] p show ?thesis by simp
next
  case (Some h)
  with assms have "f' = f" "x = Some h"
    by (simp_all add: File_DOSHeader_def)
  with Some show ?thesis by simp
qed

subsection \<open>COFF file header\<close>

lemma parseFileHeader_dosfail:
  "File_DOSHeader f = (f1, Inl e) \<Longrightarrow> parseFileHeader f = (f1, Some e)"
  by (simp add: parseFileHeader_def)

lemma parseFileHeader_short:
  "File_DOSHeader f = (f1, Inr (Some dh)) \<Longrightarrow>
   \<not> 4 \<le> length (r f1) - unat (dh_PEHdrOffset dh) \<Longrightarrow>
   \<exists>e. parseFileHeader f =
     (emit (Read (unat (dh_PEHdrOffset dh)) 4) f1, Some (Error (FileReadSignature e)))"
  unfolding parseFileHeader_def binary_Read_eq Let_def
  by (simp add: ReadFull_fail fileHdrSize_def)

lemma parseFileHeader_badsig:
  "File_DOSHeader f = (f1, Inr (Some dh)) \<Longrightarrow>
   4 \<le> length (r f1) - unat (dh_PEHdrOffset dh) \<Longrightarrow>
   u32 (take 4 (drop (unat (dh_PEHdrOffset dh)) (r f1))) 0 \<noteq> pe \<Longrightarrow>
   parseFileHeader f =
     (emit (Read (unat (dh_PEHdrOffset dh)) 4) f1,
      Some (Error (FileInvalidSignature (u32 (take 4 (drop (unat (dh_PEHdrOffset dh)) (r f1))) 0))))"
  unfolding parseFileHeader_def binary_Read_eq Let_def
  by (simp add: ReadFull_ok fileHdrSize_def)

lemma parseFileHeader_trunc:
  "File_DOSHeader f = (f1, Inr (Some dh)) \<Longrightarrow>
   4 \<le> length (r f1) - unat (dh_PEHdrOffset dh) \<Longrightarrow>
   u32 (take 4 (drop (unat (dh_PEHdrOffset dh)) (r f1))) 0 = pe \<Longrightarrow>
   \<not> 24 \<le> length (r f1) - unat (dh_PEHdrOffset dh) \<Longrightarrow>
   \<exists>e. parseFileHeader f =
     (emit (Read (unat (dh_PEHdrOffset dh) + 4) 20)
        ((emit (Read (unat (dh_PEHdrOffset dh)) 4) f1)\<lparr>fileHdr := Some newFileHeader\<rparr>),
      Some (Error (FileReadHeader e)))"
  unfolding parseFileHeader_def binary_Read_eq Let_def
  by (simp add: ReadFull_ok ReadFull_fail fileHdrSize_def)

lemma parseFileHeader_ok:
  "File_DOSHeader f = (f1, Inr (Some dh)) \<Longrightarrow>
   24 \<le> length (r f1) - unat (dh_PEHdrOffset dh) \<Longrightarrow>
   u32 (take 4 (drop (unat (dh_PEHdrOffset dh)) (r f1))) 0 = pe \<Longrightarrow>
   parseFileHeader f =
     ((emit (Read (unat (dh_PEHdrOffset dh) + 4) 20) (emit (Read (unat (dh_PEHdrOffset dh)) 4) f1))
        \<lparr>fileHdr := Some (decodeFileHeader (take 20 (drop (unat (dh_PEHdrOffset dh) + 4) (r f1))))\<rparr>,
      None)"
  unfolding parseFileHeader_def binary_Read_eq Let_def
  by (simp add: ReadFull_ok fileHdrSize_def)

lemma parseFileHeader_cases:
  assumes "parseFileHeader f = (f', x)"
  obtains (dosfail) f1 e where "File_DOSHeader f = (f1, Inl e)" "f' = f1" "x = Some e"
  | (short) f1 dh e where "File_DOSHeader f = (f1, Inr (Some dh))"
      "f' = emit (Read (unat (dh_PEHdrOffset dh)) 4) f1" "x = Some (Error (FileReadSignature e))"
  | (badsig) f1 dh where "File_DOSHeader f = (f1, Inr (Some dh))"
      "4 \<le> length (r f1) - unat (dh_PEHdrOffset dh)"
      "u32 (take 4 (drop (unat (dh_PEHdrOffset dh)) (r f1))) 0 \<noteq> pe"
      "f' = emit (Read (unat (dh_PEHdrOffset dh)) 4) f1"
      "x = Some (Error (FileInvalidSignature (u32 (take 4 (drop (unat (dh_PEHdrOffset dh)) (r f1))) 0)))"
  | (trunc) f1 dh e where "File_DOSHeader f = (f1, Inr (Some dh))"
      "f' = emit (Read (unat (dh_PEHdrOffset dh) + 4) 20)
        ((emit (Read (unat (dh_PEHdrOffset dh)) 4) f1)\<lparr>fileHdr := Some newFileHeader\<rparr>)"
      "x = Some (Error (FileReadHeader e))"
  | (ok) f1 dh where "File_DOSHeader f = (f1, Inr (Some dh))"
      "24 \<le> length (r f1) - unat (dh_PEHdrOffset dh)"
      "u32 (take 4 (drop (unat (dh_PEHdrOffset dh)) (r f1))) 0 = pe"
      "f' = (emit (Read (unat (dh_PEHdrOffset dh) + 4) 20) (emit (Read (unat (dh_PEHdrOffset dh)) 4) f1))
        \<lparr>fileHdr := Some (decodeFileHeader (take 20 (drop (unat (dh_PEHdrOffset dh) + 4) (r f1))))\<rparr>"
      "x = None"
proof -
  obtain f1 y where D: "File_DOSHeader f = (f1, y)" by (cases "File_DOSHeader f")
  show thesis
  proof (cases y)
    case (Inl e)
    with D assms dosfail show thesis by (simp add: parseFileHeader_dosfail)
  next
    case (Inr d)
    with D File_DOSHeader_result [of f f1 d] obtain dh where dh: "d = Some dh" by auto
    note D' = D [unfolded Inr dh]
    consider (a) "\<not> 4 \<le> length (r f1) - unat (dh_PEHdrOffset dh)"
      | (b) "4 \<le> length (r f1) - unat (dh_PEHdrOffset dh)"
            "u32 (take 4 (drop (unat (dh_PEHdrOffset dh)) (r f1))) 0 \<noteq> pe"
      | (c) "4 \<le> length (r f1) - unat (dh_PEHdrOffset dh)"
            "u32 (take 4 (drop (unat (dh_PEHdrOffset dh)) (r f1))) 0 = pe"
            "\<not> 24 \<le> length (r f1) - unat (dh_PEHdrOffset dh)"
      | (d) "24 \<le> length (r f1) - unat (dh_PEHdrOffset dh)"
            "u32 (take 4 (drop (unat (dh_PEHdrOffset dh)) (r f1))) 0 = pe"
      by linarith
    then show thesis
    proof cases
      case a
      with parseFileHeader_short [OF D'] assms short [OF D'] show thesis by auto
    next
      case b
      with parseFileHeader_badsig [OF D'] assms badsig [OF D'] show thesis by auto
    next
      case c
      with parseFileHeader_trunc [OF D'] assms trunc [OF D'] show thesis by auto
    next
      case d
      with parseFileHeader_ok [OF D'] assms ok [OF D'] show thesis by auto
    qed
  qed
qed

lemma parseFileHeader_frame:
  assumes "parseFileHeader f = (f', x)"
  shows "r f' = r f \<and> opthdr f' = opthdr f \<and> sectHdrs f' = sectHdrs f
         \<and> overlay f' = overlay f \<and> (\<exists>es. effects f' = effects f @ es)"
  using assms
proof (cases rule: parseFileHeader_cases)
  case (dosfail f1 e)
  with File_DOSHeader_frame [of f f1] show ?thesis by auto
next
  case (short f1 dh e)
  with File_DOSHeader_frame [of f f1] show ?thesis by auto
next
  case (badsig f1 dh)
  with File_DOSHeader_frame [of f f1] show ?thesis by auto
next
  case (trunc f1 dh e)
  with File_DOSHeader_frame [of f f1] show ?thesis by auto
next
  case (ok f1 dh)
  with File_DOSHeader_frame [of f f1] show ?thesis by auto
qed

lemma parseFileHeader_doshdr:
  assumes "parseFileHeader f = (f', x)" "doshdr f = Some dh"
  shows "doshdr f' = Some dh"
  using assms(1)
  by (cases rule: parseFileHeader_cases) (use assms(2) in \<open>auto simp add: File_DOSHeader_cached\<close>)

lemma parseFileHeader_success:
  assumes "parseFileHeader f = (f', None)"
  shows "\<exists>fh. fileHdr f' = Some fh"
  using assms by (cases rule: parseFileHeader_cases) auto

lemma File_FileHeader_cached: "fileHdr f = Some h \<Longrightarrow> File_FileHeader f = (f, Inr (Some h))"
  by (simp add: File_FileHeader_def)

lemma File_FileHeader_frame:
  assumes "File_FileHeader f = (f', x)"
  shows "r f' = r f \<and> opthdr f' = opthdr f \<and> sectHdrs f' = sectHdrs f
         \<and> overlay f' = overlay f \<and> (\<exists>es. effects f' = effects f @ es)"
proof (cases "fileHdr f")
  case None
  obtain g y where p: "parseFileHeader f = (g, y)" by (cases "parseFileHeader f")
  with None assms have "f' = g"
    by (auto simp add: File_FileHeader_def split: option.splits)
  with parseFileHeader_frame [OF p] show ?thesis by simp
next
  case (Some h)
  with assms show ?thesis by (simp add: File_FileHeader_def)
qed

lemma File_FileHeader_doshdr:
  assumes "File_FileHeader f = (f', x)" "doshdr f = Some dh"
  shows "doshdr f' = Some dh"
proof (cases "fileHdr f")
  case None
  obtain g y where p: "parseFileHeader f = (g, y)" by (cases "parseFileHeader f")
  with None assms have "f' = g"
    by (auto simp add: File_FileHeader_def split: option.splits)
  with parseFileHeader_doshdr [OF p assms(2)] show ?thesis by simp
next
  case (Some h)
  with assms show ?thesis by (simp add: File_FileHeader_def)
qed

lemma File_FileHeader_result:
  assumes "File_FileHeader f = (f', Inr x)"
  shows "x = fileHdr f' \<and> x \<noteq> None"
proof (cases "fileHdr f")
  case None
  obtain g y where p: "parseFileHeader f = (g, y)" by (cases "parseFileHeader f")
  with None assms have "y = None \<and> f' = g \<and> x = fileHdr g"
    by (auto simp add: File_FileHeader_def split: option.splits)
  with parseFileHeader_success [of f g] p show ?thesis by auto
next
  case (Some h)
  with assms have "f' = f" "x = Some h"
    by (simp_all add: File_FileHeader_def)
  with Some show ?thesis by simp
qed

subsection \<open>Optional header\<close>

lemma parseOptHeader_dosfail:
  "File_DOSHeader f = (f1, Inl e) \<Longrightarrow> parseOptHeader mem f = (f1, Some e)"
  by (simp add: parseOptHeader_def)

lemma parseOptHeader_short:
  "File_DOSHeader f = (f1, Inr (Some dh)) \<Longrightarrow>
   \<not> 96 \<le> length (r f1) - (unat (dh_PEHdrOffset dh) + 24) \<Longrightarrow>
   \<exists>e. parseOptHeader mem f =
     (emit (Read (unat (dh_PEHdrOffset dh) + 24) 96) (f1\<lparr>opthdr := Some newOptHeader\<rparr>),
      Some (Error (OptReadHeader e)))"
  unfolding parseOptHeader_def binary_Read_eq Let_def
  by (simp add: ReadFull_fail fileHdrSize_def maxOptHdrSize_def optHdr32Size_def)

lemma parseOptHeader_Make:
  assumes D: "File_DOSHeader f = (f1, Inr (Some dh))"
    and len: "96 \<le> length (r f1) - (unat (dh_PEHdrOffset dh) + 24)"
    and n: "n = unat (oh_NDataDir (decodeOptHeader32
              (take 96 (drop (unat (dh_PEHdrOffset dh) + 24) (r f1)))))"
  shows "Make n \<in> set (effects (fst (parseOptHeader mem f)))"
  using len
  unfolding parseOptHeader_def binary_Read_eq Let_def D n
  by (auto simp add: ReadFull_ok fileHdrSize_def maxOptHdrSize_def optHdr32Size_def
      split: prod.splits sum.splits)

lemma parseOptHeader_out_of_memory:
  assumes D: "File_DOSHeader f = (f1, Inr (Some dh))"
    and len: "96 \<le> length (r f1) - (unat (dh_PEHdrOffset dh) + 24)"
    and n: "n = unat (oh_NDataDir (decodeOptHeader32
              (take 96 (drop (unat (dh_PEHdrOffset dh) + 24) (r f1)))))"
    and m: "mem < 16 * n"
  shows "snd (parseOptHeader mem f) = Some (Fatal OutOfMemory)"
  using len m
  unfolding parseOptHeader_def binary_Read_eq Let_def D n
  by (auto simp add: ReadFull_ok fileHdrSize_def maxOptHdrSize_def optHdr32Size_def)

lemma parseOptHeader_overflow:
  assumes D: "File_DOSHeader f = (f1, Inr (Some dh))"
    and len: "96 \<le> length (r f1) - (unat (dh_PEHdrOffset dh) + 24)"
    and n: "n = unat (oh_NDataDir (decodeOptHeader32
              (take 96 (drop (unat (dh_PEHdrOffset dh) + 24) (r f1)))))"
    and ov: "\<not> (8 * n \<le> length (r f1) - (unat (dh_PEHdrOffset dh) + 24 + 96) \<and> 8 * n \<le> 128)"
    and m: "16 * n \<le> mem"
  shows "\<exists>e. snd (parseOptHeader mem f) = Some (Error (OptReadDataDirs e))"
  using len ov m
  unfolding parseOptHeader_def binary_Read_eq Let_def D n
  by (auto simp add: ReadFull_ok ReadFull_fail fileHdrSize_def maxOptHdrSize_def
      optHdr32Size_def)

lemma parseOptHeader_ok:
  assumes D: "File_DOSHeader f = (f1, Inr (Some dh))"
    and len: "96 \<le> length (r f1) - (unat (dh_PEHdrOffset dh) + 24)"
    and n: "n = unat (oh_NDataDir (decodeOptHeader32
              (take 96 (drop (unat (dh_PEHdrOffset dh) + 24) (r f1)))))"
    and ok: "8 * n \<le> length (r f1) - (unat (dh_PEHdrOffset dh) + 24 + 96)" "8 * n \<le> 128"
    and m: "16 * n \<le> mem"
  shows "snd (parseOptHeader mem f) = None"
    and "opthdr (fst (parseOptHeader mem f)) =
      Some \<lparr> oh_OptHeader32 =
               decodeOptHeader32 (take 96 (drop (unat (dh_PEHdrOffset dh) + 24) (r f1))),
             oh_DataDirs = Some (decodeDataDirs n
               (take (8 * n) (drop (unat (dh_PEHdrOffset dh) + 24 + 96) (r f1)))) \<rparr>"
    and "Read (unat (dh_PEHdrOffset dh) + 24) 96 \<in> set (effects (fst (parseOptHeader mem f)))"
  using len ok m
  unfolding parseOptHeader_def binary_Read_eq Let_def D n
  by (auto simp add: ReadFull_ok fileHdrSize_def maxOptHdrSize_def optHdr32Size_def)

lemma parseOptHeader_frame:
  assumes "parseOptHeader mem f = (f', x)"
  shows "r f' = r f \<and> fileHdr f' = fileHdr f \<and> sectHdrs f' = sectHdrs f
         \<and> overlay f' = overlay f \<and> (\<exists>es. effects f' = effects f @ es)"
proof -
  obtain f1 y where D: "File_DOSHeader f = (f1, y)" by (cases "File_DOSHeader f")
  from File_DOSHeader_frame [OF D] obtain es0 where
    fr: "r f1 = r f" "fileHdr f1 = fileHdr f" "sectHdrs f1 = sectHdrs f"
        "overlay f1 = overlay f" "effects f1 = effects f @ es0"
    by auto
  from assms fr show ?thesis
    unfolding parseOptHeader_def D binary_Read_eq Let_def
    by (auto split: sum.splits option.splits if_splits)
qed

lemma parseOptHeader_doshdr:
  assumes "parseOptHeader mem f = (f', x)" "doshdr f = Some dh"
  shows "doshdr f' = Some dh"
  using assms(1)
  unfolding parseOptHeader_def File_DOSHeader_cached [OF assms(2)] binary_Read_eq Let_def
  by (auto simp add: assms(2) split: sum.splits option.splits if_splits)

subsection \<open>Section headers, overlay and the whole parse\<close>

lemma setSectHdr_fields [simp]:
  "doshdr (setSectHdr i h f) = doshdr f" "fileHdr (setSectHdr i h f) = fileHdr f"
  "opthdr (setSectHdr i h f) = opthdr f" "overlay (setSectHdr i h f) = overlay f"
  "r (setSectHdr i h f) = r f" "effects (setSectHdr i h f) = effects f"
  "sectHdrs (setSectHdr i h f) = map_option (\<lambda>hs. hs[i := Some h]) (sectHdrs f)"
  by (simp_all add: setSectHdr_def)

lemma readSectHeaders_frame:
  "readSectHeaders f sr i k = (f', x) \<Longrightarrow>
   r f' = r f \<and> doshdr f' = doshdr f \<and> fileHdr f' = fileHdr f \<and> opthdr f' = opthdr f
   \<and> overlay f' = overlay f
   \<and> map_option length (sectHdrs f') = map_option length (sectHdrs f)
   \<and> (\<exists>es. effects f' = effects f @ es)"
proof (induction k arbitrary: f sr i)
  case 0
  then show ?case by simp
next
  case (Suc k)
  let ?g = "emit (Read (sr_off sr) sectHdrSize) (setSectHdr i newSectHeader f)"
  show ?case
  proof (cases "fst (ReadFull (r f) sr sectHdrSize)")
    case (Inl e)
    with Suc.prems have "f' = ?g"
      by (simp add: binary_Read_eq Let_def)
    then show ?thesis
      by (cases "sectHdrs f") simp_all
  next
    case (Inr bs)
    with Suc.prems have
      "readSectHeaders (setSectHdr i (decodeSectHeader bs) ?g)
         (snd (ReadFull (r f) sr sectHdrSize)) (Suc i) k = (f', x)"
      by (simp add: binary_Read_eq Let_def)
    from Suc.IH [OF this] show ?thesis
      by (cases "sectHdrs f") (auto simp add: option.map_comp comp_def)
  qed
qed

lemma readSectHeaders_ok:
  "sectHdrs f = Some hs \<Longrightarrow> i + k \<le> length hs \<Longrightarrow>
   40 * k \<le> length (r f) - sr_off sr \<Longrightarrow> 40 * k \<le> sr_limit sr - sr_off sr \<Longrightarrow>
   \<exists>f' hs'. readSectHeaders f sr i k = (f', None) \<and> sectHdrs f' = Some hs'
     \<and> length hs' = length hs
     \<and> (\<forall>j<k. hs' ! (i + j) =
           Some (decodeSectHeader (take 40 (drop (sr_off sr + 40 * j) (r f)))))
     \<and> (\<forall>j<i. hs' ! j = hs ! j)"
proof (induction k arbitrary: f sr i hs)
  case 0
  then show ?case by simp
next
  case (Suc k)
  let ?d = "decodeSectHeader (take 40 (drop (sr_off sr) (r f)))"
  let ?g = "setSectHdr i ?d (emit (Read (sr_off sr) 40) (setSectHdr i newSectHeader f))"
  let ?sr = "sr\<lparr>sr_off := sr_off sr + 40\<rparr>"
  from Suc.prems have rd:
    "ReadFull (r f) sr 40 = (Inr (take 40 (drop (sr_off sr) (r f))), ?sr)"
    by (intro ReadFull_ok) simp_all
  have step: "readSectHeaders f sr i (Suc k) = readSectHeaders ?g ?sr (Suc i) k"
    by (simp add: binary_Read_eq Let_def sectHdrSize_def rd)
  have g: "sectHdrs ?g = Some (hs[i := Some ?d])" "r ?g = r f"
    using Suc.prems(1) by simp_all
  from Suc.prems have pre:
    "Suc i + k \<le> length (hs[i := Some ?d])"
    "40 * k \<le> length (r ?g) - sr_off ?sr" "40 * k \<le> sr_limit ?sr - sr_off ?sr"
    by simp_all
  from Suc.IH [OF g(1) pre] obtain f' hs' where
    res: "readSectHeaders ?g ?sr (Suc i) k = (f', None)" "sectHdrs f' = Some hs'"
      "length hs' = length hs"
    and new: "\<forall>j<k. hs' ! (Suc i + j) =
        Some (decodeSectHeader (take 40 (drop (sr_off sr + 40 + 40 * j) (r f))))"
    and old: "\<forall>j<Suc i. hs' ! j = hs[i := Some ?d] ! j"
    by (auto simp add: g(2))
  have "hs' ! (i + j) = Some (decodeSectHeader (take 40 (drop (sr_off sr + 40 * j) (r f))))"
    if "j < Suc k" for j
  proof (cases j)
    case 0
    from Suc.prems(2) have "i < length hs" by simp
    with old 0 show ?thesis by simp
  next
    case (Suc j')
    with that new have "hs' ! (Suc i + j') =
        Some (decodeSectHeader (take 40 (drop (sr_off sr + 40 + 40 * j') (r f))))"
      by simp
    with Suc show ?thesis by (simp add: add.assoc)
  qed
  moreover have "hs' ! j = hs ! j" if "j < i" for j
    using old that by simp
  ultimately show ?case
    using res step by auto
qed

lemma readSectHeaders_fail:
  "\<not> (40 * k \<le> length (r f) - sr_off sr \<and> 40 * k \<le> sr_limit sr - sr_off sr) \<Longrightarrow>
   \<exists>e. snd (readSectHeaders f sr i k) = Some (Error (SectReadHeader e))"
proof (induction k arbitrary: f sr i)
  case 0
  then show ?case by simp
next
  case (Suc k)
  show ?case
  proof (cases "40 \<le> length (r f) - sr_off sr \<and> 40 \<le> sr_limit sr - sr_off sr")
    case False
    then have "fst (ReadFull (r f) sr 40) = Inl (if sr_avail (r f) sr = [] then EOF else ErrUnexpectedEOF)"
      by (intro ReadFull_fail) simp
    then show ?thesis
      by (simp add: binary_Read_eq Let_def sectHdrSize_def)
  next
    case True
    let ?d = "decodeSectHeader (take 40 (drop (sr_off sr) (r f)))"
    let ?g = "setSectHdr i ?d (emit (Read (sr_off sr) 40) (setSectHdr i newSectHeader f))"
    let ?sr = "sr\<lparr>sr_off := sr_off sr + 40\<rparr>"
    from True have rd:
      "ReadFull (r f) sr 40 = (Inr (take 40 (drop (sr_off sr) (r f))), ?sr)"
      by (intro ReadFull_ok) simp_all
    have step: "readSectHeaders f sr i (Suc k) = readSectHeaders ?g ?sr (Suc i) k"
      by (simp add: binary_Read_eq Let_def sectHdrSize_def rd)
    from Suc.prems True have
      "\<not> (40 * k \<le> length (r ?g) - sr_off ?sr \<and> 40 * k \<le> sr_limit ?sr - sr_off ?sr)"
      by auto
    from Suc.IH [OF this] show ?thesis
      by (simp only: step)
  qed
qed

lemma readSectHeaders_Make:
  "Make n \<in> set (effects f) \<Longrightarrow> Make n \<in> set (effects (fst (readSectHeaders f sr i k)))"
  using readSectHeaders_frame [of f sr i k "fst (readSectHeaders f sr i k)" "snd (readSectHeaders f sr i k)"]
  by auto

lemma parseSectHeaders_eq:
  assumes "File_DOSHeader f = (f1, Inr (Some dh))" "File_FileHeader f1 = (f2, Inr (Some fh))"
  shows "parseSectHeaders f =
     readSectHeaders ((emit (Make (unat (fh_NSection fh))) f2)
         \<lparr>sectHdrs := Some (replicate (unat (fh_NSection fh)) None)\<rparr>)
       (NewSectionReader (unat (dh_PEHdrOffset dh) + 24 + unat (fh_OptHdrSize fh))
          (unat (fh_NSection fh) * 40))
       0 (unat (fh_NSection fh))"
  using assms by (simp add: parseSectHeaders_def Let_def fileHdrSize_def sectHdrSize_def)

lemma File_SectHeaders_ok:
  assumes D: "snd (File_DOSHeader f) = Inr (Some dh)"
    and F: "snd (File_FileHeader (fst (File_DOSHeader f))) = Inr (Some fh)"
    and N: "sectHdrs f = None"
    and len: "40 * unat (fh_NSection fh)
                \<le> length (r f) - (unat (dh_PEHdrOffset dh) + 24 + unat (fh_OptHdrSize fh))"
  shows "snd (File_SectHeaders f) =
           Inr (Some (map (\<lambda>i. Some (decodeSectHeader (take 40
              (drop (unat (dh_PEHdrOffset dh) + 24 + unat (fh_OptHdrSize fh) + 40 * i) (r f)))))
              [0..<unat (fh_NSection fh)]))"
    and "r (fst (File_SectHeaders f)) = r f"
    and "overlay (fst (File_SectHeaders f)) = overlay f"
    and "fileHdr (fst (File_SectHeaders f)) = Some fh"
proof -
  define f1 where "f1 = fst (File_DOSHeader f)"
  define f2 where "f2 = fst (File_FileHeader f1)"
  define n where "n = unat (fh_NSection fh)"
  define off where "off = unat (dh_PEHdrOffset dh) + 24 + unat (fh_OptHdrSize fh)"
  have D': "File_DOSHeader f = (f1, Inr (Some dh))"
    using D by (simp add: f1_def prod_eq_iff)
  have F': "File_FileHeader f1 = (f2, Inr (Some fh))"
    using F by (simp add: f1_def f2_def prod_eq_iff)
  from File_DOSHeader_frame [OF D'] File_FileHeader_frame [OF F']
  have fr: "r f2 = r f" "overlay f2 = overlay f"
    by auto
  from File_FileHeader_result [OF F'] have fh2: "fileHdr f2 = Some fh"
    by simp
  let ?g = "(emit (Make n) f2)\<lparr>sectHdrs := Some (replicate n None)\<rparr>"
  let ?sr = "NewSectionReader off (n * 40)"
  have p: "parseSectHeaders f = readSectHeaders ?g ?sr 0 n"
    using parseSectHeaders_eq [OF D' F'] by (simp add: n_def off_def)
  have "\<exists>f' hs'. readSectHeaders ?g ?sr 0 n = (f', None) \<and> sectHdrs f' = Some hs'
     \<and> length hs' = length (replicate n (None :: SectHeader option))
     \<and> (\<forall>j<n. hs' ! (0 + j) =
           Some (decodeSectHeader (take 40 (drop (sr_off ?sr + 40 * j) (r ?g)))))
     \<and> (\<forall>j<0. hs' ! j = replicate n None ! j)"
    using len by (intro readSectHeaders_ok) (simp_all add: fr n_def off_def)
  then obtain f' hs' where
    res: "readSectHeaders ?g ?sr 0 n = (f', None)" "sectHdrs f' = Some hs'" "length hs' = n"
    and el: "\<forall>j<n. hs' ! j = Some (decodeSectHeader (take 40 (drop (off + 40 * j) (r f))))"
    by (auto simp add: fr)
  have hs': "hs' = map (\<lambda>i. Some (decodeSectHeader (take 40 (drop (off + 40 * i) (r f))))) [0..<n]"
    using res(3) el by (intro nth_equalityI) simp_all
  from readSectHeaders_frame [OF res(1)]
  have fr': "r f' = r f" "overlay f' = overlay f" "fileHdr f' = Some fh"
    by (simp_all add: fr fh2)
  have acc: "File_SectHeaders f = (f', Inr (Some hs'))"
    using N p res by (simp add: File_SectHeaders_def)
  show "snd (File_SectHeaders f) =
           Inr (Some (map (\<lambda>i. Some (decodeSectHeader (take 40
              (drop (unat (dh_PEHdrOffset dh) + 24 + unat (fh_OptHdrSize fh) + 40 * i) (r f)))))
              [0..<unat (fh_NSection fh)]))"
    using acc hs' by (simp add: n_def off_def)
  show "r (fst (File_SectHeaders f)) = r f"
    "overlay (fst (File_SectHeaders f)) = overlay f"
    "fileHdr (fst (File_SectHeaders f)) = Some fh"
    using acc fr' by simp_all
qed

lemma parseSectHeaders_overflow:
  assumes D: "snd (File_DOSHeader f) = Inr (Some dh)"
    and F: "snd (File_FileHeader (fst (File_DOSHeader f))) = Inr (Some fh)"
    and len: "\<not> 40 * unat (fh_NSection fh)
                \<le> length (r f) - (unat (dh_PEHdrOffset dh) + 24 + unat (fh_OptHdrSize fh))"
  shows "\<exists>e. snd (parseSectHeaders f) = Some (Error (SectReadHeader e))"
    and "Make (unat (fh_NSection fh)) \<in> set (effects (fst (parseSectHeaders f)))"
proof -
  define f1 where "f1 = fst (File_DOSHeader f)"
  define f2 where "f2 = fst (File_FileHeader f1)"
  define n where "n = unat (fh_NSection fh)"
  define off where "off = unat (dh_PEHdrOffset dh) + 24 + unat (fh_OptHdrSize fh)"
  have D': "File_DOSHeader f = (f1, Inr (Some dh))"
    using D by (simp add: f1_def prod_eq_iff)
  have F': "File_FileHeader f1 = (f2, Inr (Some fh))"
    using F by (simp add: f1_def f2_def prod_eq_iff)
  from File_DOSHeader_frame [OF D'] File_FileHeader_frame [OF F']
  have fr: "r f2 = r f"
    by auto
  let ?g = "(emit (Make n) f2)\<lparr>sectHdrs := Some (replicate n None)\<rparr>"
  let ?sr = "NewSectionReader off (n * 40)"
  have p: "parseSectHeaders f = readSectHeaders ?g ?sr 0 n"
    using parseSectHeaders_eq [OF D' F'] by (simp add: n_def off_def)
  have "\<exists>e. snd (readSectHeaders ?g ?sr 0 n) = Some (Error (SectReadHeader e))"
    using len by (intro readSectHeaders_fail) (simp add: fr n_def off_def)
  then show "\<exists>e. snd (parseSectHeaders f) = Some (Error (SectReadHeader e))"
    by (simp only: p)
  have "Make n \<in> set (effects (fst (readSectHeaders ?g ?sr 0 n)))"
    by (intro readSectHeaders_Make) simp
  then show "Make (unat (fh_NSection fh)) \<in> set (effects (fst (parseSectHeaders f)))"
    by (simp only: p n_def)
qed

lemma File_SectHeaders_overflow:
  assumes D: "snd (File_DOSHeader f) = Inr (Some dh)"
    and F: "snd (File_FileHeader (fst (File_DOSHeader f))) = Inr (Some fh)"
    and N: "sectHdrs f = None"
    and len: "\<not> 40 * unat (fh_NSection fh)
                \<le> length (r f) - (unat (dh_PEHdrOffset dh) + 24 + unat (fh_OptHdrSize fh))"
  shows "\<exists>e. snd (File_SectHeaders f) = Inl (Error (SectReadHeader e))"
proof -
  from parseSectHeaders_overflow(1) [OF D F len] obtain e where
    "snd (parseSectHeaders f) = Some (Error (SectReadHeader e))" ..
  then show ?thesis
    using N by (cases "parseSectHeaders f") (simp add: File_SectHeaders_def)
qed

lemma parseSectHeaders_success:
  assumes "parseSectHeaders f = (f', None)"
  shows "r f' = r f \<and> overlay f' = overlay f
         \<and> (\<exists>fh hs. fileHdr f' = Some fh \<and> sectHdrs f' = Some hs
                \<and> length hs = unat (fh_NSection fh))"
proof -
  obtain f1 y where D: "File_DOSHeader f = (f1, y)" by (cases "File_DOSHeader f")
  obtain f2 z where F: "File_FileHeader f1 = (f2, z)" by (cases "File_FileHeader f1")
  from assms D obtain d where y: "y = Inr d"
    by (cases y) (simp_all add: parseSectHeaders_def)
  with File_DOSHeader_result [of f f1 d] D obtain dh where dh: "y = Inr (Some dh)"
    by auto
  from assms D F dh obtain h where z: "z = Inr h"
    by (cases z) (simp_all add: parseSectHeaders_def Let_def)
  with File_FileHeader_result [of f1 f2 h] F obtain fh where
    fh: "z = Inr (Some fh)" "fileHdr f2 = Some fh"
    by auto
  note D' = D [unfolded dh] and F' = F [unfolded fh(1)]
  from File_DOSHeader_frame [OF D'] File_FileHeader_frame [OF F']
  have fr: "r f2 = r f" "overlay f2 = overlay f"
    by auto
  let ?n = "unat (fh_NSection fh)"
  let ?g = "(emit (Make ?n) f2)\<lparr>sectHdrs := Some (replicate ?n None)\<rparr>"
  from assms parseSectHeaders_eq [OF D' F'] obtain sr where
    "readSectHeaders ?g sr 0 ?n = (f', None)"
    by simp
  from readSectHeaders_frame [OF this]
  have "r f' = r f" "overlay f' = overlay f" "fileHdr f' = Some fh"
    "map_option length (sectHdrs f') = Some ?n"
    by (simp_all add: fr fh(2))
  then show ?thesis
    by (cases "sectHdrs f'") auto
qed

lemma File_Parse_success:
  assumes "File_Parse mem f = (f', None)"
  shows "r f' = r f \<and> overlay f' = overlay f
         \<and> (\<exists>fh hs. fileHdr f' = Some fh \<and> sectHdrs f' = Some hs
                \<and> length hs = unat (fh_NSection fh))"
proof -
  obtain f1 x1 where p1: "parseDOSHeader f = (f1, x1)" by (cases "parseDOSHeader f")
  obtain f2 x2 where p2: "parseFileHeader f1 = (f2, x2)" by (cases "parseFileHeader f1")
  from assms p1 have x1: "x1 = None"
    by (cases x1) (simp_all add: File_Parse_def)
  from assms p1 p2 x1 have x2: "x2 = None"
    by (cases x2) (simp_all add: File_Parse_def)
  from parseFileHeader_success [of f1 f2] p2 x2 obtain fh where fh: "fileHdr f2 = Some fh"
    by auto
  define q where "q = (if fh_OptHdrSize fh > 0 then parseOptHeader mem f2 else (f2, None))"
  obtain f3 x3 where p3: "q = (f3, x3)" by (cases q)
  from assms p1 p2 x1 x2 fh p3 have x3: "x3 = None"
    by (cases x3) (simp_all add: File_Parse_def q_def)
  from assms p1 p2 x1 x2 fh p3 x3 have p4: "parseSectHeaders f3 = (f', None)"
    by (simp add: File_Parse_def q_def)
  have fr3: "r f3 = r f2 \<and> overlay f3 = overlay f2"
  proof (cases "fh_OptHdrSize fh > 0")
    case True
    with p3 have "parseOptHeader mem f2 = (f3, x3)" by (simp add: q_def)
    from parseOptHeader_frame [OF this] show ?thesis by simp
  next
    case False
    with p3 show ?thesis by (simp add: q_def)
  qed
  from parseDOSHeader_frame [OF p1] parseFileHeader_frame [OF p2] fr3
  have "r f3 = r f" "overlay f3 = overlay f"
    by auto
  with parseSectHeaders_success [OF p4] show ?thesis
    by simp
qed

lemma File_SectHeaders_cached: "sectHdrs f = Some hs \<Longrightarrow> File_SectHeaders f = (f, Inr (Some hs))"
  by (simp add: File_SectHeaders_def)

lemma File_Overlay_no_sections:
  assumes "sectHdrs f = Some []" "overlay f = None"
  shows "snd (File_Overlay f) = Inr (Some (r f))"
  using assms
  by (simp add: File_Overlay_def parseOverlay_def File_SectHeaders_cached Let_def ReadAt_def)

subsection \<open>The accessors on a file that has just been opened\<close>

lemma New_fields [simp]:
  "doshdr (New src) = None" "fileHdr (New src) = None" "opthdr (New src) = None"
  "sectHdrs (New src) = None" "overlay (New src) = None" "r (New src) = src"
  "effects (New src) = []"
  by (simp_all add: New_def)

lemma pair_fst_snd: "snd p = y \<Longrightarrow> p = (fst p, y)"
  by (cases p) simp

lemma File_DOSHeader_fst:
  "r (fst (File_DOSHeader f)) = r f" "fileHdr (fst (File_DOSHeader f)) = fileHdr f"
  "opthdr (fst (File_DOSHeader f)) = opthdr f" "sectHdrs (fst (File_DOSHeader f)) = sectHdrs f"
  "overlay (fst (File_DOSHeader f)) = overlay f"
  using File_DOSHeader_frame [of f "fst (File_DOSHeader f)" "snd (File_DOSHeader f)"]
  by simp_all

lemma File_DOSHeader_ok:
  assumes "doshdr f = None" "64 \<le> length (r f)" "u16 (take 2 (r f)) 0 = mz"
  shows "snd (File_DOSHeader f) = Inr (Some (decodeDOSHeader (take 62 (drop 2 (r f)))))"
  using assms by (simp add: File_DOSHeader_def parseDOSHeader_ok)

lemma File_DOSHeader_doshdr:
  assumes "snd (File_DOSHeader f) = Inr (Some dh)"
  shows "doshdr (fst (File_DOSHeader f)) = Some dh"
  using File_DOSHeader_result [OF pair_fst_snd [OF assms]] by simp

lemma File_FileHeader_fst:
  "r (fst (File_FileHeader f)) = r f" "opthdr (fst (File_FileHeader f)) = opthdr f"
  "sectHdrs (fst (File_FileHeader f)) = sectHdrs f"
  "overlay (fst (File_FileHeader f)) = overlay f"
  using File_FileHeader_frame [of f "fst (File_FileHeader f)" "snd (File_FileHeader f)"]
  by simp_all

lemma File_FileHeader_ok:
  assumes D: "snd (File_DOSHeader f) = Inr (Some dh)" and N: "fileHdr f = None"
    and len: "24 \<le> length (r f) - unat (dh_PEHdrOffset dh)"
    and sig: "u32 (take 4 (drop (unat (dh_PEHdrOffset dh)) (r f))) 0 = pe"
  shows "snd (File_FileHeader f) =
           Inr (Some (decodeFileHeader (take 20 (drop (unat (dh_PEHdrOffset dh) + 4) (r f)))))"
    and "doshdr (fst (File_FileHeader f)) = Some dh"
proof -
  note D' = pair_fst_snd [OF D]
  have p: "parseFileHeader f =
     ((emit (Read (unat (dh_PEHdrOffset dh) + 4) 20)
         (emit (Read (unat (dh_PEHdrOffset dh)) 4) (fst (File_DOSHeader f))))
        \<lparr>fileHdr := Some (decodeFileHeader (take 20 (drop (unat (dh_PEHdrOffset dh) + 4) (r f))))\<rparr>,
      None)"
    using parseFileHeader_ok [OF D'] len sig by (simp add: File_DOSHeader_fst)
  show "snd (File_FileHeader f) =
           Inr (Some (decodeFileHeader (take 20 (drop (unat (dh_PEHdrOffset dh) + 4) (r f)))))"
    using N by (simp add: File_FileHeader_def p)
  show "doshdr (fst (File_FileHeader f)) = Some dh"
    using N by (simp add: File_FileHeader_def p File_DOSHeader_doshdr [OF D])
qed

lemma File_FileHeader_after_DOS:
  assumes D: "snd (File_DOSHeader f) = Inr (Some dh)" and N: "fileHdr f = None"
    and len: "24 \<le> length (r f) - unat (dh_PEHdrOffset dh)"
    and sig: "u32 (take 4 (drop (unat (dh_PEHdrOffset dh)) (r f))) 0 = pe"
  shows "snd (File_FileHeader (fst (File_DOSHeader f))) =
           Inr (Some (decodeFileHeader (take 20 (drop (unat (dh_PEHdrOffset dh) + 4) (r f)))))"
proof -
  let ?f1 = "fst (File_DOSHeader f)"
  have "snd (File_DOSHeader ?f1) = Inr (Some dh)"
    by (simp add: File_DOSHeader_cached [OF File_DOSHeader_doshdr [OF D]])
  from File_FileHeader_ok(1) [OF this] N len sig show ?thesis
    by (simp add: File_DOSHeader_fst)
qed

lemma File_FileHeader_badsig:
  assumes D: "snd (File_DOSHeader f) = Inr (Some dh)" and N: "fileHdr f = None"
    and len: "4 \<le> length (r f) - unat (dh_PEHdrOffset dh)"
    and sig: "u32 (take 4 (drop (unat (dh_PEHdrOffset dh)) (r f))) 0 \<noteq> pe"
  shows "snd (File_FileHeader f) =
           Inl (Error (FileInvalidSignature (u32 (take 4 (drop (unat (dh_PEHdrOffset dh)) (r f))) 0)))"
    and "doshdr (fst (File_FileHeader f)) = Some dh"
    and "fileHdr (fst (File_FileHeader f)) = None"
proof -
  note D' = pair_fst_snd [OF D]
  have p: "parseFileHeader f =
     (emit (Read (unat (dh_PEHdrOffset dh)) 4) (fst (File_DOSHeader f)),
      Some (Error (FileInvalidSignature (u32 (take 4 (drop (unat (dh_PEHdrOffset dh)) (r f))) 0))))"
    using parseFileHeader_badsig [OF D'] len sig by (simp add: File_DOSHeader_fst)
  show "snd (File_FileHeader f) =
           Inl (Error (FileInvalidSignature (u32 (take 4 (drop (unat (dh_PEHdrOffset dh)) (r f))) 0)))"
    using N by (simp add: File_FileHeader_def p)
  show "doshdr (fst (File_FileHeader f)) = Some dh"
    using N by (simp add: File_FileHeader_def p File_DOSHeader_doshdr [OF D])
  show "fileHdr (fst (File_FileHeader f)) = None"
    using N by (simp add: File_FileHeader_def p File_DOSHeader_fst)
qed

lemma parseOptHeader_Make':
  assumes D: "snd (File_DOSHeader f) = Inr (Some dh)"
    and len: "96 \<le> length (r f) - (unat (dh_PEHdrOffset dh) + 24)"
  shows "Make (unat (oh_NDataDir (decodeOptHeader32
                   (take 96 (drop (unat (dh_PEHdrOffset dh) + 24) (r f))))))
           \<in> set (effects (fst (parseOptHeader mem f)))"
  using parseOptHeader_Make [OF pair_fst_snd [OF D], OF _ refl] len
  by (simp add: File_DOSHeader_fst)

lemma parseOptHeader_out_of_memory':
  assumes D: "snd (File_DOSHeader f) = Inr (Some dh)"
    and len: "96 \<le> length (r f) - (unat (dh_PEHdrOffset dh) + 24)"
    and m: "mem < 16 * unat (oh_NDataDir (decodeOptHeader32
                   (take 96 (drop (unat (dh_PEHdrOffset dh) + 24) (r f)))))"
  shows "snd (parseOptHeader mem f) = Some (Fatal OutOfMemory)"
  using parseOptHeader_out_of_memory [OF pair_fst_snd [OF D], OF _ refl] len m
  by (simp add: File_DOSHeader_fst)

lemma parseOptHeader_overflow':
  assumes D: "snd (File_DOSHeader f) = Inr (Some dh)"
    and len: "96 \<le> length (r f) - (unat (dh_PEHdrOffset dh) + 24)"
    and ov: "length (r f) - (unat (dh_PEHdrOffset dh) + 24 + 96)
               < 8 * unat (oh_NDataDir (decodeOptHeader32
                   (take 96 (drop (unat (dh_PEHdrOffset dh) + 24) (r f)))))"
    and m: "16 * unat (oh_NDataDir (decodeOptHeader32
                   (take 96 (drop (unat (dh_PEHdrOffset dh) + 24) (r f))))) \<le> mem"
  shows "\<exists>e. snd (parseOptHeader mem f) = Some (Error (OptReadDataDirs e))"
  using parseOptHeader_overflow [OF pair_fst_snd [OF D], OF _ refl] len ov m
  by (simp add: File_DOSHeader_fst)

lemma parseOptHeader_no_bytes:
  assumes D: "snd (File_DOSHeader f) = Inr (Some dh)"
    and len: "length (r f) = unat (dh_PEHdrOffset dh) + 24 + 96"
    and n: "0 < unat (oh_NDataDir (decodeOptHeader32
                   (take 96 (drop (unat (dh_PEHdrOffset dh) + 24) (r f)))))"
    and m: "16 * unat (oh_NDataDir (decodeOptHeader32
                   (take 96 (drop (unat (dh_PEHdrOffset dh) + 24) (r f))))) \<le> mem"
  shows "snd (parseOptHeader mem f) = Some (Error (OptReadDataDirs EOF))"
proof -
  obtain f1 where D': "File_DOSHeader f = (f1, Inr (Some dh))"
    using D by (cases "File_DOSHeader f") simp
  from File_DOSHeader_frame [OF D'] have rr: "r f1 = r f"
    by simp
  show ?thesis
    using len n m
    unfolding parseOptHeader_def binary_Read_eq Let_def D'
    by (simp add: ReadFull_ok ReadFull_fail fileHdrSize_def maxOptHdrSize_def
        optHdr32Size_def rr sr_avail_def)
qed

lemma File_OptHeader_ok:
  assumes D: "snd (File_DOSHeader f) = Inr (Some dh)" and N: "opthdr f = None"
    and len: "96 \<le> length (r f) - (unat (dh_PEHdrOffset dh) + 24)"
    and n: "n = unat (oh_NDataDir (decodeOptHeader32
              (take 96 (drop (unat (dh_PEHdrOffset dh) + 24) (r f)))))"
    and ok: "8 * n \<le> length (r f) - (unat (dh_PEHdrOffset dh) + 24 + 96)" "8 * n \<le> 128"
    and m: "16 * n \<le> mem"
  shows "snd (File_OptHeader mem f) =
      Inr (Some \<lparr> oh_OptHeader32 =
               decodeOptHeader32 (take 96 (drop (unat (dh_PEHdrOffset dh) + 24) (r f))),
             oh_DataDirs = Some (decodeDataDirs n
               (take (8 * n) (drop (unat (dh_PEHdrOffset dh) + 24 + 96) (r f)))) \<rparr>)"
    and "Read (unat (dh_PEHdrOffset dh) + 24) 96 \<in> set (effects (fst (File_OptHeader mem f)))"
proof -
  note D' = pair_fst_snd [OF D]
  have a: "snd (parseOptHeader mem f) = None"
    and b: "opthdr (fst (parseOptHeader mem f)) =
      Some \<lparr> oh_OptHeader32 =
               decodeOptHeader32 (take 96 (drop (unat (dh_PEHdrOffset dh) + 24) (r f))),
             oh_DataDirs = Some (decodeDataDirs n
               (take (8 * n) (drop (unat (dh_PEHdrOffset dh) + 24 + 96) (r f)))) \<rparr>"
    and c: "Read (unat (dh_PEHdrOffset dh) + 24) 96 \<in> set (effects (fst (parseOptHeader mem f)))"
    using parseOptHeader_ok [OF D', where n = n and mem = mem] len n ok m
    by (simp_all add: File_DOSHeader_fst)
  obtain g where g: "parseOptHeader mem f = (g, None)"
    using a by (cases "parseOptHeader mem f") simp
  show "snd (File_OptHeader mem f) =
      Inr (Some \<lparr> oh_OptHeader32 =
               decodeOptHeader32 (take 96 (drop (unat (dh_PEHdrOffset dh) + 24) (r f))),
             oh_DataDirs = Some (decodeDataDirs n
               (take (8 * n) (drop (unat (dh_PEHdrOffset dh) + 24 + 96) (r f)))) \<rparr>)"
    using N b g by (simp add: File_OptHeader_def)
  show "Read (unat (dh_PEHdrOffset dh) + 24) 96 \<in> set (effects (fst (File_OptHeader mem f)))"
    using N c g by (simp add: File_OptHeader_def)
qed

lemma readSectHeaders_first_fail:
  assumes "0 < k" "length (r f) - sr_off sr < 40"
  shows "snd (readSectHeaders f sr i k) =
     Some (Error (SectReadHeader (if sr_avail (r f) sr = [] then EOF else ErrUnexpectedEOF)))"
proof -
  obtain k' where k: "k = Suc k'"
    using assms(1) by (cases k) simp_all
  have "fst (ReadFull (r f) sr 40) = Inl (if sr_avail (r f) sr = [] then EOF else ErrUnexpectedEOF)"
    using assms(2) by (intro ReadFull_fail) simp
  then show ?thesis
    by (simp add: k binary_Read_eq Let_def sectHdrSize_def)
qed

lemma File_SectHeaders_no_bytes:
  assumes D: "snd (File_DOSHeader f) = Inr (Some dh)"
    and F: "snd (File_FileHeader (fst (File_DOSHeader f))) = Inr (Some fh)"
    and N: "sectHdrs f = None"
    and n: "0 < unat (fh_NSection fh)"
    and len: "length (r f) \<le> unat (dh_PEHdrOffset dh) + 24 + unat (fh_OptHdrSize fh)"
  shows "snd (File_SectHeaders f) = Inl (Error (SectReadHeader EOF))"
proof -
  note D' = pair_fst_snd [OF D] and F' = pair_fst_snd [OF F]
  have rr: "r (fst (File_FileHeader (fst (File_DOSHeader f)))) = r f"
    by (simp add: File_FileHeader_fst File_DOSHeader_fst)
  have "snd (parseSectHeaders f) = Some (Error (SectReadHeader EOF))"
    unfolding parseSectHeaders_eq [OF D' F']
    using n len by (subst readSectHeaders_first_fail) (simp_all add: rr sr_avail_def)
  then show ?thesis
    using N by (cases "parseSectHeaders f") (simp add: File_SectHeaders_def)
qed

lemma File_Overlay_negative_size:
  assumes S: "snd (File_SectHeaders f) = Inr (Some hs)" and N: "overlay f = None"
    and st: "overlayStartLoop hs 0 = Inr s"
    and len: "length (r (fst (File_SectHeaders f))) < s"
  shows "snd (File_Overlay f) = Inl (Panic MakesliceLenOutOfRange)"
proof -
  obtain f1 where S': "File_SectHeaders f = (f1, Inr (Some hs))"
    using S by (cases "File_SectHeaders f") simp
  show ?thesis
    using N st len by (simp add: File_Overlay_def parseOverlay_def S' Let_def)
qed

lemma File_Parse_no_opt:
  assumes len: "64 \<le> length src" and sig: "u16 (take 2 src) 0 = mz"
    and dh: "dh = decodeDOSHeader (take 62 (drop 2 src))"
    and len2: "24 \<le> length src - unat (dh_PEHdrOffset dh)"
    and sig2: "u32 (take 4 (drop (unat (dh_PEHdrOffset dh)) src)) 0 = pe"
    and fh: "fh = decodeFileHeader (take 20 (drop (unat (dh_PEHdrOffset dh) + 4) src))"
    and opt: "fh_OptHdrSize fh = 0"
    and len3: "40 * unat (fh_NSection fh) \<le> length src - (unat (dh_PEHdrOffset dh) + 24)"
  shows "snd (File_Parse mem (New src)) = None"
    and "doshdr (fst (File_Parse mem (New src))) = Some dh"
    and "fileHdr (fst (File_Parse mem (New src))) = Some fh"
    and "opthdr (fst (File_Parse mem (New src))) = None"
    and "r (fst (File_Parse mem (New src))) = src"
    and "overlay (fst (File_Parse mem (New src))) = None"
proof -
  obtain f1 where p1: "parseDOSHeader (New src) = (f1, None)"
    using parseDOSHeader_ok [of "New src"] len sig by simp
  from parseDOSHeader_success [OF p1] parseDOSHeader_frame [OF p1]
  have f1: "doshdr f1 = Some dh" "r f1 = src" "fileHdr f1 = None" "opthdr f1 = None"
    "sectHdrs f1 = None" "overlay f1 = None"
    by (simp_all add: dh)
  note D1 = File_DOSHeader_cached [OF f1(1)]
  define f2 where "f2 = (emit (Read (unat (dh_PEHdrOffset dh) + 4) 20)
         (emit (Read (unat (dh_PEHdrOffset dh)) 4) f1))\<lparr>fileHdr := Some fh\<rparr>"
  have p2: "parseFileHeader f1 = (f2, None)"
    using parseFileHeader_ok [OF D1] len2 sig2 by (simp add: f1 fh f2_def)
  have f2: "doshdr f2 = Some dh" "r f2 = src" "fileHdr f2 = Some fh" "opthdr f2 = None"
    "sectHdrs f2 = None" "overlay f2 = None"
    by (simp_all add: f2_def f1)
  have D2: "snd (File_DOSHeader f2) = Inr (Some dh)"
    by (simp add: File_DOSHeader_cached [OF f2(1)])
  have F2: "snd (File_FileHeader (fst (File_DOSHeader f2))) = Inr (Some fh)"
    by (simp add: File_DOSHeader_cached [OF f2(1)] File_FileHeader_cached [OF f2(3)])
  have D2': "File_DOSHeader f2 = (f2, Inr (Some dh))"
    by (rule File_DOSHeader_cached [OF f2(1)])
  have F2': "File_FileHeader f2 = (f2, Inr (Some fh))"
    by (rule File_FileHeader_cached [OF f2(3)])
  have "snd (File_SectHeaders f2) \<noteq> Inl e" for e
    using File_SectHeaders_ok(1) [OF D2 F2 f2(5)] len3 by (simp add: f2 opt)
  then obtain f3 where p3: "parseSectHeaders f2 = (f3, None)"
    using f2(5) by (cases "parseSectHeaders f2"; cases "snd (parseSectHeaders f2)")
      (auto simp add: File_SectHeaders_def)
  obtain sr g n where "readSectHeaders g sr 0 n = (f3, None)"
    and g: "g = (emit (Make (unat (fh_NSection fh))) f2)
         \<lparr>sectHdrs := Some (replicate (unat (fh_NSection fh)) None)\<rparr>"
    using p3 parseSectHeaders_eq [OF D2' F2'] by simp
  from readSectHeaders_frame [OF this(1)]
  have f3: "doshdr f3 = Some dh" "r f3 = src" "fileHdr f3 = Some fh" "opthdr f3 = None"
    "overlay f3 = None"
    by (simp_all add: g f2)
  have P: "File_Parse mem (New src) = (f3, None)"
    by (simp add: File_Parse_def p1 p2 f2 opt p3)
  show "snd (File_Parse mem (New src)) = None" "doshdr (fst (File_Parse mem (New src))) = Some dh"
    "fileHdr (fst (File_Parse mem (New src))) = Some fh" "opthdr (fst (File_Parse mem (New src))) = None"
    "r (fst (File_Parse mem (New src))) = src" "overlay (fst (File_Parse mem (New src))) = None"
    by (simp_all add: P f3)
qed

subsection \<open>The example images\<close>

lemmas image_defs = dosImage_def coffImage_def sectImage_def peSig_def
  u8_def u16_def u32_def mz_def pe_def decodeDOSHeader_def decodeFileHeader_def
  decodeOptHeader32_def decodeSectHeader_def

lemma headers_ok:
  assumes "64 \<le> length src" "u16 (take 2 src) 0 = mz"
    and "unat (dh_PEHdrOffset (decodeDOSHeader (take 62 (drop 2 src)))) = po"
    and "24 \<le> length src - po" "u32 (take 4 (drop po src)) 0 = pe"
  shows "snd (File_DOSHeader (New src)) = Inr (Some (decodeDOSHeader (take 62 (drop 2 src))))"
    and "snd (File_FileHeader (fst (File_DOSHeader (New src))))
           = Inr (Some (decodeFileHeader (take 20 (drop (po + 4) src))))"
proof -
  show D: "snd (File_DOSHeader (New src)) = Inr (Some (decodeDOSHeader (take 62 (drop 2 src))))"
    using File_DOSHeader_ok [of "New src"] assms(1,2) by simp
  from File_FileHeader_after_DOS [OF D] assms(3-5)
  show "snd (File_FileHeader (fst (File_DOSHeader (New src))))
           = Inr (Some (decodeFileHeader (take 20 (drop (po + 4) src))))"
    by simp
qed

lemma imgNoTable_facts:
  "length imgNoTable = 88"
  "u16 (take 2 imgNoTable) 0 = mz"
  "unat (dh_PEHdrOffset (decodeDOSHeader (take 62 (drop 2 imgNoTable)))) = 64"
  "u32 (take 4 (drop 64 imgNoTable)) 0 = pe"
  "unat (fh_NSection (decodeFileHeader (take 20 (drop 68 imgNoTable)))) = 1"
  "unat (fh_OptHdrSize (decodeFileHeader (take 20 (drop 68 imgNoTable)))) = 0"
  by (simp_all add: imgNoTable_def image_defs)

lemma imgTwoSect_facts:
  "length imgTwoSect = 180"
  "u16 (take 2 imgTwoSect) 0 = mz"
  "unat (dh_PEHdrOffset (decodeDOSHeader (take 62 (drop 2 imgTwoSect)))) = 64"
  "u32 (take 4 (drop 64 imgTwoSect)) 0 = pe"
  "unat (fh_NSection (decodeFileHeader (take 20 (drop 68 imgTwoSect)))) = 2"
  "unat (fh_OptHdrSize (decodeFileHeader (take 20 (drop 68 imgTwoSect)))) = 0"
  "sh_Size (decodeSectHeader (take 40 (drop 88 imgTwoSect))) = 8"
  "sh_Offset (decodeSectHeader (take 40 (drop 88 imgTwoSect))) = 168"
  "sh_Size (decodeSectHeader (take 40 (drop 128 imgTwoSect))) = 4"
  "sh_Offset (decodeSectHeader (take 40 (drop 128 imgTwoSect))) = 176"
  by (simp_all add: imgTwoSect_def image_defs)

lemma imgHugeDirs_facts:
  "length imgHugeDirs = 184"
  "u16 (take 2 imgHugeDirs) 0 = mz"
  "unat (dh_PEHdrOffset (decodeDOSHeader (take 62 (drop 2 imgHugeDirs)))) = 64"
  "u32 (take 4 (drop 64 imgHugeDirs)) 0 = pe"
  "unat (fh_NSection (decodeFileHeader (take 20 (drop 68 imgHugeDirs)))) = 2"
  "unat (fh_OptHdrSize (decodeFileHeader (take 20 (drop 68 imgHugeDirs)))) = 96"
  "unat (oh_NDataDir (decodeOptHeader32 (take 96 (drop 88 imgHugeDirs)))) = 4294967295"
  by (simp_all add: imgHugeDirs_def image_defs)

subsection \<open>The section headers and their windows\<close>

text \<open>
  C8, counterexample. \<open>imgNoTable\<close> ends right after its file header, which
  declares one section. Both headers parse, and the section-header accessor returns
  the end-of-file error of the first read instead of one entry.
\<close>

theorem SectHeaders_truncated_table_counterexample:
  "snd (File_DOSHeader (New imgNoTable))
     = Inr (Some (decodeDOSHeader (take 62 (drop 2 imgNoTable))))
   \<and> snd (File_FileHeader (fst (File_DOSHeader (New imgNoTable))))
     = Inr (Some (decodeFileHeader (take 20 (drop 68 imgNoTable))))
   \<and> unat (fh_NSection (decodeFileHeader (take 20 (drop 68 imgNoTable)))) = 1
   \<and> snd (File_SectHeaders (New imgNoTable)) = Inl (Error (SectReadHeader EOF))"
proof -
  note h = headers_ok [of imgNoTable 64, simplified imgNoTable_facts, simplified]
  have "snd (File_SectHeaders (New imgNoTable)) = Inl (Error (SectReadHeader EOF))"
    by (rule File_SectHeaders_no_bytes [OF h]) (simp_all add: imgNoTable_facts del: take_all)
  with h show ?thesis
    by (simp add: imgNoTable_facts del: take_all)
qed

text \<open>
  C8, as amended. For a file whose DOS and COFF file headers parse, whose section
  headers are not cached yet, and whose source holds the whole table (it is at least
  \<open>PEHdrOffset + 24 + OptHdrSize + 40 * NSection\<close> bytes long), the section-header
  accessor returns exactly \<open>NSection\<close> entries, in file order, the \<open>i\<close>-th decoded
  from the 40 bytes at offset \<open>PEHdrOffset + 24 + OptHdrSize + 40 * i\<close>, with the
  declared \<open>OptHdrSize\<close>.
\<close>

theorem SectHeaders_windows:
  assumes "snd (File_DOSHeader f) = Inr (Some dh)"
    and "snd (File_FileHeader (fst (File_DOSHeader f))) = Inr (Some fh)"
    and "sectHdrs f = None"
    and "unat (dh_PEHdrOffset dh) + 24 + unat (fh_OptHdrSize fh) + 40 * unat (fh_NSection fh)
           \<le> length (r f)"
  shows "snd (File_SectHeaders f) =
           Inr (Some (map (\<lambda>i. Some (decodeSectHeader (take 40
              (drop (unat (dh_PEHdrOffset dh) + 24 + unat (fh_OptHdrSize fh) + 40 * i) (r f)))))
              [0..<unat (fh_NSection fh)]))"
  using assms by (intro File_SectHeaders_ok) simp_all

text \<open>
  C8, witness: \<open>imgTwoSect\<close>, whose two section headers are the 40 bytes at offset
  88 and the 40 bytes at offset 128.
\<close>

theorem SectHeaders_windows_witness:
  "snd (File_DOSHeader (New imgTwoSect))
     = Inr (Some (decodeDOSHeader (take 62 (drop 2 imgTwoSect))))
   \<and> snd (File_FileHeader (fst (File_DOSHeader (New imgTwoSect))))
     = Inr (Some (decodeFileHeader (take 20 (drop 68 imgTwoSect))))
   \<and> sectHdrs (New imgTwoSect) = None
   \<and> 64 + 24 + 0 + 40 * 2 \<le> length (r (New imgTwoSect))
   \<and> snd (File_SectHeaders (New imgTwoSect))
     = Inr (Some [Some (decodeSectHeader (take 40 (drop 88 imgTwoSect))),
                  Some (decodeSectHeader (take 40 (drop 128 imgTwoSect)))])
   \<and> sh_Size (decodeSectHeader (take 40 (drop 88 imgTwoSect))) = 8
   \<and> sh_Offset (decodeSectHeader (take 40 (drop 88 imgTwoSect))) = 168
   \<and> sh_Size (decodeSectHeader (take 40 (drop 128 imgTwoSect))) = 4
   \<and> sh_Offset (decodeSectHeader (take 40 (drop 128 imgTwoSect))) = 176"
proof -
  note h = headers_ok [of imgTwoSect 64, simplified imgTwoSect_facts, simplified]
  have u: "[0..<2] = [0, Suc 0]"
    by (simp add: numeral_2_eq_2)
  from SectHeaders_windows [OF h] h show ?thesis
    by (simp add: imgTwoSect_facts u del: take_all)
qed

subsection \<open>Declared counts and allocation\<close>

lemma imgManyDirs_facts:
  "length imgManyDirs = 184"
  "u16 (take 2 imgManyDirs) 0 = mz"
  "unat (dh_PEHdrOffset (decodeDOSHeader (take 62 (drop 2 imgManyDirs)))) = 64"
  "u32 (take 4 (drop 64 imgManyDirs)) 0 = pe"
  "unat (fh_NSection (decodeFileHeader (take 20 (drop 68 imgManyDirs)))) = 2"
  "unat (fh_OptHdrSize (decodeFileHeader (take 20 (drop 68 imgManyDirs)))) = 96"
  "unat (oh_NDataDir (decodeOptHeader32 (take 96 (drop 88 imgManyDirs)))) = 100"
  by (simp_all add: imgManyDirs_def image_defs)

text \<open>
  C1, counterexample. \<open>imgHugeDirs\<close> is 184 bytes long and ends with the fixed part of
  the optional header, whose \<open>NDataDir\<close> is \<open>0xFFFFFFFF\<close>. Parsing the optional header
  asks the runtime for a slice of 4294967295 data directories, 32 GiB less 8 bytes;
  with 16 GiB left to allocate, the program ends with the fatal error
  \<open>out of memory\<close>. No error is returned, and the count has not been checked against
  the 184 bytes of the source.
\<close>

theorem parseOptHeader_huge_count_counterexample:
  "length imgHugeDirs = 184
   \<and> unat (oh_NDataDir (decodeOptHeader32 (take 96 (drop 88 imgHugeDirs)))) = 4294967295
   \<and> Make 4294967295 \<in> set (effects (fst (parseOptHeader (16 * GiB) (New imgHugeDirs))))
   \<and> snd (parseOptHeader (16 * GiB) (New imgHugeDirs)) = Some (Fatal OutOfMemory)"
proof -
  note h = headers_ok [of imgHugeDirs 64, simplified imgHugeDirs_facts, simplified]
  have a: "snd (parseOptHeader (16 * GiB) (New imgHugeDirs)) = Some (Fatal OutOfMemory)"
    by (rule parseOptHeader_out_of_memory' [OF h(1)])
       (simp_all add: imgHugeDirs_facts GiB_def del: take_all)
  have b: "Make 4294967295 \<in> set (effects (fst (parseOptHeader (16 * GiB) (New imgHugeDirs))))"
    using parseOptHeader_Make' [OF h(1), of "16 * GiB"]
    by (simp add: imgHugeDirs_facts del: take_all)
  from a b show ?thesis
    by (simp add: imgHugeDirs_facts del: take_all)
qed

text \<open>
  C1, as amended. When a declared count needs more bytes than the source has left,
  parsing fails with the error of the truncated read (the package has no separate
  count-overflow error), and the slice of the declared size has been made before the
  read: the count is neither capped nor checked against the source first. The first
  conjunct is about \<open>NDataDir\<close> and the optional header, for a runtime that can serve
  the slice and the read buffer (\<open>16 * NDataDir\<close> bytes together); the second is about
  \<open>NSection\<close> and the section headers.
\<close>

theorem counts_not_validated:
  assumes "snd (File_DOSHeader f) = Inr (Some dh)"
  shows "(96 \<le> length (r f) - (unat (dh_PEHdrOffset dh) + 24)
          \<and> length (r f) - (unat (dh_PEHdrOffset dh) + 24 + 96)
              < 8 * unat (oh_NDataDir (decodeOptHeader32
                  (take 96 (drop (unat (dh_PEHdrOffset dh) + 24) (r f)))))
          \<and> 16 * unat (oh_NDataDir (decodeOptHeader32
                  (take 96 (drop (unat (dh_PEHdrOffset dh) + 24) (r f))))) \<le> mem
          \<longrightarrow> (\<exists>e. snd (parseOptHeader mem f) = Some (Error (OptReadDataDirs e)))
              \<and> Make (unat (oh_NDataDir (decodeOptHeader32
                    (take 96 (drop (unat (dh_PEHdrOffset dh) + 24) (r f))))))
                  \<in> set (effects (fst (parseOptHeader mem f))))
       \<and> (snd (File_FileHeader (fst (File_DOSHeader f))) = Inr (Some fh)
          \<and> length (r f) - (unat (dh_PEHdrOffset dh) + 24 + unat (fh_OptHdrSize fh))
              < 40 * unat (fh_NSection fh)
          \<longrightarrow> (\<exists>e. snd (parseSectHeaders f) = Some (Error (SectReadHeader e)))
              \<and> Make (unat (fh_NSection fh)) \<in> set (effects (fst (parseSectHeaders f))))"
  using parseOptHeader_Make' [OF assms, of mem] parseOptHeader_overflow' [OF assms, of mem]
    parseSectHeaders_overflow [OF assms, of fh]
  by (simp add: not_le)

text \<open>
  C1, witness: \<open>imgManyDirs\<close>, 184 bytes long, with \<open>NDataDir = 100\<close> and two
  sections declared, and 1 GiB left to allocate. Both counts need bytes past the end of
  the source.
\<close>

theorem counts_not_validated_witness:
  "snd (File_DOSHeader (New imgManyDirs))
     = Inr (Some (decodeDOSHeader (take 62 (drop 2 imgManyDirs))))
   \<and> 96 \<le> length (r (New imgManyDirs)) - (64 + 24)
   \<and> length (r (New imgManyDirs)) - (64 + 24 + 96) < 8 * 100
   \<and> 16 * 100 \<le> GiB
   \<and> (\<exists>e. snd (parseOptHeader GiB (New imgManyDirs)) = Some (Error (OptReadDataDirs e)))
   \<and> Make 100 \<in> set (effects (fst (parseOptHeader GiB (New imgManyDirs))))
   \<and> snd (File_FileHeader (fst (File_DOSHeader (New imgManyDirs))))
     = Inr (Some (decodeFileHeader (take 20 (drop 68 imgManyDirs))))
   \<and> length (r (New imgManyDirs)) - (64 + 24 + 96) < 40 * 2
   \<and> (\<exists>e. snd (parseSectHeaders (New imgManyDirs)) = Some (Error (SectReadHeader e)))
   \<and> Make 2 \<in> set (effects (fst (parseSectHeaders (New imgManyDirs))))"
proof -
  note h = headers_ok [of imgManyDirs 64, simplified imgManyDirs_facts, simplified]
  from counts_not_validated [OF h(1),
      of GiB "decodeFileHeader (take 20 (drop 68 imgManyDirs))"] h
  show ?thesis
    by (simp add: imgManyDirs_facts GiB_def del: take_all)
qed

subsection \<open>The overlay of a file without sections\<close>

lemma imgNoSect_facts:
  "u16 (take 2 imgNoSect) 0 = mz"
  "unat (dh_PEHdrOffset (decodeDOSHeader (take 62 (drop 2 imgNoSect)))) = 64"
  "u32 (take 4 (drop 64 imgNoSect)) 0 = pe"
  "fh_NSection (decodeFileHeader (take 20 (drop 68 imgNoSect))) = 0"
  "fh_OptHdrSize (decodeFileHeader (take 20 (drop 68 imgNoSect))) = 0"
  "drop 88 imgNoSect = [1, 2, 3]"
  by (simp_all add: imgNoSect_def image_defs)

lemma imgNoSect_length: "length imgNoSect = 91"
  by (simp add: imgNoSect_def image_defs)

lemma File_Parse_no_sections:
  assumes "snd (File_Parse mem (New src)) = None"
    and "fileHdr (fst (File_Parse mem (New src))) = Some fh" and "fh_NSection fh = 0"
  shows "snd (File_SectHeaders (fst (File_Parse mem (New src)))) = Inr (Some [])"
    and "snd (File_Overlay (fst (File_Parse mem (New src)))) = Inr (Some src)"
proof -
  obtain f' where P: "File_Parse mem (New src) = (f', None)"
    using assms(1) by (cases "File_Parse mem (New src)") simp
  from File_Parse_success [OF P] assms(2,3) P
  have f': "r f' = src" "overlay f' = None" "sectHdrs f' = Some []"
    by auto
  show "snd (File_SectHeaders (fst (File_Parse mem (New src)))) = Inr (Some [])"
    by (simp add: P File_SectHeaders_cached [OF f'(3)])
  show "snd (File_Overlay (fst (File_Parse mem (New src)))) = Inr (Some src)"
    using File_Overlay_no_sections [OF f'(3) f'(2)] by (simp add: P f'(1))
qed

lemma imgNoSect_parse:
  "snd (File_Parse GiB (New imgNoSect)) = None"
  "fileHdr (fst (File_Parse GiB (New imgNoSect)))
     = Some (decodeFileHeader (take 20 (drop 68 imgNoSect)))"
  using File_Parse_no_opt(1,3) [of imgNoSect _ _ GiB, OF _ _ refl _ _ refl]
  by (simp_all add: imgNoSect_facts imgNoSect_length del: take_all)

text \<open>
  C4, counterexample. \<open>imgNoSect\<close> parses, declares no section and has three bytes
  after its 88 bytes of headers. Its overlay is all 91 bytes of the source, not the
  three bytes that follow the headers.
\<close>

theorem Overlay_no_sections_counterexample:
  "snd (File_Parse GiB (New imgNoSect)) = None
   \<and> map_option fh_NSection (fileHdr (fst (File_Parse GiB (New imgNoSect)))) = Some 0
   \<and> snd (File_Overlay (fst (File_Parse GiB (New imgNoSect)))) = Inr (Some imgNoSect)
   \<and> drop 88 imgNoSect = [1, 2, 3]
   \<and> length imgNoSect = 91"
  using File_Parse_no_sections(2) [OF imgNoSect_parse imgNoSect_facts(4)]
  by (simp add: imgNoSect_parse imgNoSect_facts imgNoSect_length del: take_all)

text \<open>
  C4, as amended. For a file that parses successfully with \<open>NSection = 0\<close>, the
  section-header accessor returns an empty list and the overlay is the whole source,
  from offset 0: the start of the overlay stays at its initial value 0 when there is
  no section.
\<close>

theorem no_sections_overlay_is_whole_source:
  assumes "snd (File_Parse mem (New src)) = None"
    and "fileHdr (fst (File_Parse mem (New src))) = Some fh" and "fh_NSection fh = 0"
  shows "snd (File_SectHeaders (fst (File_Parse mem (New src)))) = Inr (Some [])
         \<and> snd (File_Overlay (fst (File_Parse mem (New src)))) = Inr (Some src)"
  using File_Parse_no_sections [OF assms] by simp

text \<open>
  C4, witness: \<open>imgNoSect\<close>.
\<close>

theorem no_sections_overlay_is_whole_source_witness:
  "snd (File_Parse GiB (New imgNoSect)) = None
   \<and> fileHdr (fst (File_Parse GiB (New imgNoSect)))
       = Some (decodeFileHeader (take 20 (drop 68 imgNoSect)))
   \<and> fh_NSection (decodeFileHeader (take 20 (drop 68 imgNoSect))) = 0
   \<and> snd (File_SectHeaders (fst (File_Parse GiB (New imgNoSect)))) = Inr (Some [])
   \<and> snd (File_Overlay (fst (File_Parse GiB (New imgNoSect)))) = Inr (Some imgNoSect)"
  using no_sections_overlay_is_whole_source [OF imgNoSect_parse imgNoSect_facts(4)]
  by (simp add: imgNoSect_parse imgNoSect_facts del: take_all)

subsection \<open>Section data\<close>

text \<open>
  When the source holds the whole section, \<open>Section\<close> returns exactly \<open>Size\<close> bytes,
  those at offset \<open>Offset\<close>; none when \<open>Size = 0\<close>.
\<close>

lemma File_Section_in_source:
  assumes "unat (sh_Offset sectHdr) + unat (sh_Size sectHdr) \<le> length (r f)"
  shows "snd (File_Section f sectHdr)
           = Inr (take (unat (sh_Size sectHdr)) (drop (unat (sh_Offset sectHdr)) (r f)))"
    and "length (take (unat (sh_Size sectHdr)) (drop (unat (sh_Offset sectHdr)) (r f)))
           = unat (sh_Size sectHdr)"
  using assms by (simp_all add: File_Section_def Let_def ReadAll_def sr_avail_def)

text \<open>
  C5, the code at a failing input. On a source of three bytes, \<open>Section\<close> for a
  header with raw size 8 and raw offset 0 returns three bytes and no error:
  \<open>ioutil.ReadAll\<close> takes the end of the source for the end of the data, where
  \<open>DOSStub\<close> reads its bytes with \<open>io.ReadFull\<close> and returns the error of a short
  read.
\<close>

theorem Section_returns_short_data_without_error:
  "unat (sh_Size shShort) = 8 \<and> unat (sh_Offset shShort) = 0
   \<and> snd (File_Section (New [1, 2, 3]) shShort) = Inr [1, 2, 3]"
  by (simp add: shShort_def newSectHeader_def decodeSectHeader_def u32_def File_Section_def
      Let_def ReadAll_def sr_avail_def)

subsection \<open>The DOS stub\<close>

lemma stubSize_below_64:
  assumes "(p::uint32) < 64"
  shows "uint (p - 64) = 2 ^ 32 - 64 + uint p"
proof -
  from assms have "uint p < 64"
    by (simp add: word_less_def)
  then show ?thesis
    by (simp add: uint_sub_if')
qed

lemma stubSize_pos: "(p::uint32) \<noteq> 64 \<Longrightarrow> 0 < uint (p - 64)"
proof -
  assume "p \<noteq> 64"
  then have "p - 64 \<noteq> 0" by simp
  then have "uint (p - 64) \<noteq> 0"
    by (simp only: uint_0_iff not_False_eq_True)
  moreover have "0 \<le> uint (p - 64)" by simp
  ultimately show ?thesis by linarith
qed

lemma File_DOSStub_nil_iff:
  assumes "snd (File_DOSHeader f) = Inr (Some dh)"
  shows "(snd (File_DOSStub f) = Inr None) = (dh_PEHdrOffset dh = 64)"
proof -
  obtain f1 where D: "File_DOSHeader f = (f1, Inr (Some dh))"
    using assms by (cases "File_DOSHeader f") simp
  show ?thesis
  proof (cases "dh_PEHdrOffset dh = 64")
    case True
    then show ?thesis
      by (simp add: File_DOSStub_def D Let_def dosHdrSize_def)
  next
    case False
    from stubSize_pos [OF False] False show ?thesis
      by (simp add: File_DOSStub_def D Let_def dosHdrSize_def split: prod.splits sum.splits)
  qed
qed

lemma File_DOSStub_read:
  assumes "File_DOSHeader f = (f1, Inr (Some dh))" and "0 < uint (dh_PEHdrOffset dh - 64)"
    and "n = nat (uint (dh_PEHdrOffset dh - 64))"
  shows "File_DOSStub f =
      (emit (Read 64 n) (emit (Make n) f1),
       case fst (ReadFull (r f1) (NewSectionReader 64 n) n) of
         Inl e \<Rightarrow> Inl (Error (StubRead e)) | Inr bs \<Rightarrow> Inr (Some bs))"
  using assms(2)
  by (simp add: File_DOSStub_def assms(1,3) Let_def dosHdrSize_def
      split: prod.splits sum.splits)

lemma File_DOSStub_wraps:
  assumes "snd (File_DOSHeader f) = Inr (Some dh)"
    and "dh_PEHdrOffset dh < 64" and "length (r f) < 2 ^ 32 + unat (dh_PEHdrOffset dh)"
  shows "\<exists>e. snd (File_DOSStub f) = Inl (Error (StubRead e))"
    and "Make (2 ^ 32 - 64 + unat (dh_PEHdrOffset dh)) \<in> set (effects (fst (File_DOSStub f)))"
    and "Read 64 (2 ^ 32 - 64 + unat (dh_PEHdrOffset dh)) \<in> set (effects (fst (File_DOSStub f)))"
proof -
  obtain f1 where D: "File_DOSHeader f = (f1, Inr (Some dh))"
    using assms(1) by (cases "File_DOSHeader f") simp
  from File_DOSHeader_frame [OF D] have rr: "r f1 = r f"
    by simp
  define n where "n = 2 ^ 32 - 64 + unat (dh_PEHdrOffset dh)"
  have sz: "uint (dh_PEHdrOffset dh - 64) = int n"
    using stubSize_below_64 [OF assms(2)] by (simp add: n_def)
  have fail: "fst (ReadFull (r f1) (NewSectionReader 64 n) n)
      = Inl (if sr_avail (r f1) (NewSectionReader 64 n) = [] then EOF else ErrUnexpectedEOF)"
    using assms(3) by (intro ReadFull_fail) (simp add: rr n_def)
  have "0 < uint (dh_PEHdrOffset dh - 64)" "n = nat (uint (dh_PEHdrOffset dh - 64))"
    by (simp_all add: sz) (simp add: n_def)
  from File_DOSStub_read [OF D this] have eq: "File_DOSStub f =
      (emit (Read 64 n) (emit (Make n) f1),
       Inl (Error (StubRead
         (if sr_avail (r f1) (NewSectionReader 64 n) = [] then EOF else ErrUnexpectedEOF))))"
    by (simp add: fail)
  show "\<exists>e. snd (File_DOSStub f) = Inl (Error (StubRead e))"
    by (simp add: eq)
  show "Make (2 ^ 32 - 64 + unat (dh_PEHdrOffset dh)) \<in> set (effects (fst (File_DOSStub f)))"
    "Read 64 (2 ^ 32 - 64 + unat (dh_PEHdrOffset dh)) \<in> set (effects (fst (File_DOSStub f)))"
    by (simp_all add: eq n_def)
qed

lemma File_DOSStub_long_source:
  assumes "snd (File_DOSHeader f) = Inr (Some dh)"
    and "dh_PEHdrOffset dh < 64" and "2 ^ 32 + unat (dh_PEHdrOffset dh) \<le> length (r f)"
  shows "snd (File_DOSStub f)
           = Inr (Some (take (2 ^ 32 - 64 + unat (dh_PEHdrOffset dh)) (drop 64 (r f))))"
proof -
  obtain f1 where D: "File_DOSHeader f = (f1, Inr (Some dh))"
    using assms(1) by (cases "File_DOSHeader f") simp
  from File_DOSHeader_frame [OF D] have rr: "r f1 = r f"
    by simp
  define n where "n = 2 ^ 32 - 64 + unat (dh_PEHdrOffset dh)"
  have sz: "uint (dh_PEHdrOffset dh - 64) = int n"
    using stubSize_below_64 [OF assms(2)] by (simp add: n_def)
  have "n \<le> length (r f1) - sr_off (NewSectionReader 64 n)"
    "n \<le> sr_limit (NewSectionReader 64 n) - sr_off (NewSectionReader 64 n)"
    using assms(3) by (simp_all add: rr n_def)
  from ReadFull_ok [OF this]
  have ok: "fst (ReadFull (r f1) (NewSectionReader 64 n) n) = Inr (take n (drop 64 (r f)))"
    by (simp add: rr)
  have "0 < uint (dh_PEHdrOffset dh - 64)" "n = nat (uint (dh_PEHdrOffset dh - 64))"
    by (simp_all add: sz) (simp add: n_def)
  from File_DOSStub_read [OF D this] have "snd (File_DOSStub f)
      = Inr (Some (take n (drop 64 (r f))))"
    by (simp add: ok)
  then show ?thesis
    by (simp add: n_def)
qed

lemma imgStub_facts:
  "u16 (take 2 imgStub) 0 = mz"
  "dh_PEHdrOffset (decodeDOSHeader (take 62 (drop 2 imgStub))) = 0"
  by (simp_all add: imgStub_def image_defs)

lemma imgStub_length: "length imgStub = 64"
  by (simp add: imgStub_def image_defs)

lemma imgLongStub_facts:
  "u16 (take 2 imgLongStub) 0 = mz"
  "dh_PEHdrOffset (decodeDOSHeader (take 62 (drop 2 imgLongStub))) = 0"
  "drop 64 imgLongStub = replicate 4294967232 0"
  by (simp_all add: imgLongStub_def image_defs)

lemma imgLongStub_length: "length imgLongStub = 4294967296"
  by (simp add: imgLongStub_def image_defs)

text \<open>
  C10, counterexample. \<open>imgLongStub\<close> is \<open>2^32\<close> bytes long and its DOS header has
  \<open>PEHdrOffset = 0\<close>. The stub size is 4294967232, the source holds that many bytes
  after the DOS header, and \<open>DOSStub\<close> returns them without error.
\<close>

theorem DOSStub_long_source_counterexample:
  "snd (File_DOSHeader (New imgLongStub))
     = Inr (Some (decodeDOSHeader (take 62 (drop 2 imgLongStub))))
   \<and> dh_PEHdrOffset (decodeDOSHeader (take 62 (drop 2 imgLongStub))) = 0
   \<and> length imgLongStub = 4294967296
   \<and> snd (File_DOSStub (New imgLongStub)) = Inr (Some (replicate 4294967232 0))"
proof -
  have D: "snd (File_DOSHeader (New imgLongStub))
      = Inr (Some (decodeDOSHeader (take 62 (drop 2 imgLongStub))))"
    using File_DOSHeader_ok [of "New imgLongStub"]
    by (simp add: imgLongStub_facts imgLongStub_length del: take_all)
  from File_DOSStub_long_source [OF D] D show ?thesis
    by (simp add: imgLongStub_facts imgLongStub_length)
qed

text \<open>
  C10, as amended. With the DOS header parsed, \<open>DOSStub\<close> returns a nil stub and no
  error exactly when \<open>PEHdrOffset = 64\<close>. When \<open>PEHdrOffset < 64\<close>, the stub size is
  the wrapped difference \<open>2^32 - 64 + PEHdrOffset\<close>, the guard for an empty stub is not
  taken, a buffer of that size is made and a read of that size at offset 64 is
  requested, and on a source shorter than \<open>2^32 + PEHdrOffset\<close> bytes the call fails
  with a read error.
\<close>

theorem DOSStub_offset_below_header:
  assumes "snd (File_DOSHeader f) = Inr (Some dh)"
  shows "(snd (File_DOSStub f) = Inr None) = (dh_PEHdrOffset dh = 64)
     \<and> (dh_PEHdrOffset dh < 64 \<and> length (r f) < 2 ^ 32 + unat (dh_PEHdrOffset dh) \<longrightarrow>
          uint (dh_PEHdrOffset dh - 64) = 2 ^ 32 - 64 + uint (dh_PEHdrOffset dh)
        \<and> (\<exists>e. snd (File_DOSStub f) = Inl (Error (StubRead e)))
        \<and> Make (2 ^ 32 - 64 + unat (dh_PEHdrOffset dh)) \<in> set (effects (fst (File_DOSStub f)))
        \<and> Read 64 (2 ^ 32 - 64 + unat (dh_PEHdrOffset dh))
            \<in> set (effects (fst (File_DOSStub f))))"
  using File_DOSStub_nil_iff [OF assms] File_DOSStub_wraps [OF assms] stubSize_below_64
  by blast

text \<open>
  C10, witness: \<open>imgStub\<close>, a DOS header with \<open>PEHdrOffset = 0\<close>, where the stub size
  is 4294967232.
\<close>

theorem DOSStub_offset_below_header_witness:
  "snd (File_DOSHeader (New imgStub)) = Inr (Some (decodeDOSHeader (take 62 (drop 2 imgStub))))
   \<and> dh_PEHdrOffset (decodeDOSHeader (take 62 (drop 2 imgStub))) < 64
   \<and> length (r (New imgStub)) < 2 ^ 32 + 0
   \<and> snd (File_DOSStub (New imgStub)) \<noteq> Inr None
   \<and> (\<exists>e. snd (File_DOSStub (New imgStub)) = Inl (Error (StubRead e)))
   \<and> Make 4294967232 \<in> set (effects (fst (File_DOSStub (New imgStub))))
   \<and> Read 64 4294967232 \<in> set (effects (fst (File_DOSStub (New imgStub))))"
proof -
  have D: "snd (File_DOSHeader (New imgStub))
      = Inr (Some (decodeDOSHeader (take 62 (drop 2 imgStub))))"
    using File_DOSHeader_ok [of "New imgStub"]
    by (simp add: imgStub_facts imgStub_length del: take_all)
  from DOSStub_offset_below_header [OF D] D show ?thesis
    by (simp add: imgStub_facts imgStub_length del: take_all)
qed

lemma le_nat_replicate_zero: "le_nat (replicate n 0) = 0"
  by (induction n) simp_all

subsection \<open>The overlay of a file with a section past its end\<close>

lemma imgPastEnd_facts:
  "u16 (take 2 imgPastEnd) 0 = mz"
  "unat (dh_PEHdrOffset (decodeDOSHeader (take 62 (drop 2 imgPastEnd)))) = 64"
  "u32 (take 4 (drop 64 imgPastEnd)) 0 = pe"
  "unat (fh_NSection (decodeFileHeader (take 20 (drop 68 imgPastEnd)))) = 1"
  "unat (fh_OptHdrSize (decodeFileHeader (take 20 (drop 68 imgPastEnd)))) = 0"
  "sh_Offset (decodeSectHeader (take 40 (drop 88 imgPastEnd))) = 0"
  "sh_Size (decodeSectHeader (take 40 (drop 88 imgPastEnd))) = 200"
  by (simp_all add: imgPastEnd_def image_defs)

lemma imgPastEnd_length: "length imgPastEnd = 128"
  by (simp add: imgPastEnd_def image_defs)

text \<open>
  C2, the code at a failing input. \<open>imgPastEnd\<close> is 128 bytes long and its only
  section has raw offset 0 and raw size 200. The overlay size is negative and making
  the overlay buffer panics, where \<open>DOSStub\<close> guards its own size with
  \<open>stubSize <= 0\<close>.
\<close>

theorem Overlay_section_past_end_panics:
  "length imgPastEnd = 128
   \<and> snd (File_SectHeaders (New imgPastEnd))
       = Inr (Some [Some (decodeSectHeader (take 40 (drop 88 imgPastEnd)))])
   \<and> sh_Offset (decodeSectHeader (take 40 (drop 88 imgPastEnd))) = 0
   \<and> sh_Size (decodeSectHeader (take 40 (drop 88 imgPastEnd))) = 200
   \<and> snd (File_Overlay (New imgPastEnd)) = Inl (Panic MakesliceLenOutOfRange)"
proof -
  note h = headers_ok [of imgPastEnd 64, simplified imgPastEnd_facts imgPastEnd_length, simplified]
  have s: "snd (File_SectHeaders (New imgPastEnd))
       = Inr (Some [Some (decodeSectHeader (take 40 (drop 88 imgPastEnd)))])"
    using File_SectHeaders_ok(1) [OF h]
    by (simp add: imgPastEnd_facts imgPastEnd_length del: take_all)
  have rr: "r (fst (File_SectHeaders (New imgPastEnd))) = imgPastEnd"
    using File_SectHeaders_ok(2) [OF h]
    by (simp add: imgPastEnd_facts imgPastEnd_length del: take_all)
  have "snd (File_Overlay (New imgPastEnd)) = Inl (Panic MakesliceLenOutOfRange)"
    by (rule File_Overlay_negative_size [OF s, where s = 200])
       (simp_all add: imgPastEnd_facts rr imgPastEnd_length del: take_all)
  with s show ?thesis
    by (simp add: imgPastEnd_facts imgPastEnd_length del: take_all)
qed

subsection \<open>The optional header accessor and the file header\<close>

lemma imgNoOpt_facts:
  "u16 (take 2 imgNoOpt) 0 = mz"
  "unat (dh_PEHdrOffset (decodeDOSHeader (take 62 (drop 2 imgNoOpt)))) = 64"
  "u32 (take 4 (drop 64 imgNoOpt)) 0 = pe"
  "unat (fh_NSection (decodeFileHeader (take 20 (drop 68 imgNoOpt)))) = 1"
  "fh_OptHdrSize (decodeFileHeader (take 20 (drop 68 imgNoOpt))) = 0"
  "unat (oh_NDataDir (decodeOptHeader32 (take 96 (drop 88 imgNoOpt)))) = 0"
  "oh_EntryRelAddr (decodeOptHeader32 (take 96 (drop 88 imgNoOpt))) = 56"
  by (simp_all add: imgNoOpt_def image_defs le_nat_replicate_zero)

lemma imgNoOpt_length: "length imgNoOpt = 184"
  by (simp add: imgNoOpt_def image_defs)

text \<open>
  C3, the code at a failing input. \<open>imgNoOpt\<close> declares \<open>OptHdrSize = 0\<close>. \<open>Parse\<close>
  succeeds and leaves the optional header nil, as its guard \<open>OptHdrSize > 0\<close> says.
  The optional-header accessor then reads 96 bytes at offset 88, which are the section
  header and section data, and returns them decoded as an optional header (its
  \<open>EntryRelAddr\<close> is the raw size 56 of the section).
\<close>

theorem OptHeader_reads_absent_optional_header:
  "snd (File_Parse mem (New imgNoOpt)) = None
   \<and> map_option fh_OptHdrSize (fileHdr (fst (File_Parse mem (New imgNoOpt)))) = Some 0
   \<and> opthdr (fst (File_Parse mem (New imgNoOpt))) = None
   \<and> snd (File_OptHeader mem (fst (File_Parse mem (New imgNoOpt))))
       = Inr (Some \<lparr> oh_OptHeader32 = decodeOptHeader32 (take 96 (drop 88 imgNoOpt)),
                     oh_DataDirs = Some [] \<rparr>)
   \<and> oh_EntryRelAddr (decodeOptHeader32 (take 96 (drop 88 imgNoOpt))) = 56
   \<and> Read 88 96 \<in> set (effects (fst (File_OptHeader mem (fst (File_Parse mem (New imgNoOpt))))))"
proof -
  let ?f = "fst (File_Parse mem (New imgNoOpt))"
  let ?dh = "decodeDOSHeader (take 62 (drop 2 imgNoOpt))"
  have P: "snd (File_Parse mem (New imgNoOpt)) = None"
    "doshdr ?f = Some ?dh"
    "fileHdr ?f = Some (decodeFileHeader (take 20 (drop 68 imgNoOpt)))"
    "opthdr ?f = None" "r ?f = imgNoOpt"
    using File_Parse_no_opt(1-5) [of imgNoOpt _ _ mem, OF _ _ refl _ _ refl]
    by (simp_all add: imgNoOpt_facts imgNoOpt_length del: take_all)
  have D: "snd (File_DOSHeader ?f) = Inr (Some ?dh)"
    by (simp add: File_DOSHeader_cached [OF P(2)])
  have O: "snd (File_OptHeader mem ?f)
       = Inr (Some \<lparr> oh_OptHeader32 = decodeOptHeader32 (take 96 (drop 88 imgNoOpt)),
                     oh_DataDirs = Some [] \<rparr>)"
    "Read 88 96 \<in> set (effects (fst (File_OptHeader mem ?f)))"
    using File_OptHeader_ok [OF D P(4), where n = 0 and mem = mem]
    by (simp_all add: P(5) imgNoOpt_facts imgNoOpt_length decodeDataDirs_def del: take_all)
  from P O show ?thesis
    by (simp add: imgNoOpt_facts del: take_all)
qed

subsection \<open>Signatures\<close>

lemma imgBadPE_facts:
  "u16 (take 2 imgBadPE) 0 = mz"
  "unat (dh_PEHdrOffset (decodeDOSHeader (take 62 (drop 2 imgBadPE)))) = 64"
  "u32 (take 4 (drop 64 imgBadPE)) 0 = 0x01004550"
  "unat (oh_NDataDir (decodeOptHeader32 (take 96 (drop 88 imgBadPE)))) = 0"
  by (simp_all add: imgBadPE_def image_defs le_nat_replicate_zero)

lemma imgBadPE_length: "length imgBadPE = 184"
  by (simp add: imgBadPE_def image_defs)

text \<open>
  C9, the code at a failing input. In \<open>imgBadPE\<close> the four bytes at \<open>PEHdrOffset\<close>
  are \<open>0x01004550\<close>. The file-header accessor fails with the invalid-signature error
  and caches nothing; the optional-header accessor, called next on the same file,
  reads 96 bytes at offset 88 and returns a decoded optional header.
\<close>

theorem OptHeader_parsed_after_bad_PE_signature:
  "snd (File_FileHeader (New imgBadPE)) = Inl (Error (FileInvalidSignature 0x01004550))
   \<and> fileHdr (fst (File_FileHeader (New imgBadPE))) = None
   \<and> snd (File_OptHeader mem (fst (File_FileHeader (New imgBadPE))))
       = Inr (Some \<lparr> oh_OptHeader32 = decodeOptHeader32 (take 96 (drop 88 imgBadPE)),
                     oh_DataDirs = Some [] \<rparr>)
   \<and> Read 88 96 \<in> set (effects (fst (File_OptHeader mem (fst (File_FileHeader (New imgBadPE))))))"
proof -
  let ?f = "fst (File_FileHeader (New imgBadPE))"
  let ?dh = "decodeDOSHeader (take 62 (drop 2 imgBadPE))"
  have D0: "snd (File_DOSHeader (New imgBadPE)) = Inr (Some ?dh)"
    using File_DOSHeader_ok [of "New imgBadPE"]
    by (simp add: imgBadPE_facts imgBadPE_length del: take_all)
  have F: "snd (File_FileHeader (New imgBadPE)) = Inl (Error (FileInvalidSignature 0x01004550))"
    "doshdr ?f = Some ?dh" "fileHdr ?f = None"
    using File_FileHeader_badsig [OF D0]
    by (simp_all add: imgBadPE_facts imgBadPE_length pe_def del: take_all)
  have D: "snd (File_DOSHeader ?f) = Inr (Some ?dh)"
    by (simp add: File_DOSHeader_cached [OF F(2)])
  have O: "snd (File_OptHeader mem ?f)
       = Inr (Some \<lparr> oh_OptHeader32 = decodeOptHeader32 (take 96 (drop 88 imgBadPE)),
                     oh_DataDirs = Some [] \<rparr>)"
    "Read 88 96 \<in> set (effects (fst (File_OptHeader mem ?f)))"
    using File_OptHeader_ok [OF D, where n = 0 and mem = mem]
    by (simp_all add: File_FileHeader_fst imgBadPE_facts imgBadPE_length decodeDataDirs_def
        del: take_all)
  from F O show ?thesis
    by simp
qed

text \<open>
  A source with two bytes that are not \<open>MZ\<close>: every accessor, and \<open>Parse\<close>, fails
  with the invalid-signature error of the DOS header after the one read of two bytes.
\<close>

lemma bad_DOS_signature_stops_every_accessor:
  assumes "doshdr f = None" "2 \<le> length (r f)" "u16 (take 2 (r f)) 0 \<noteq> mz"
  shows "File_DOSHeader f
           = (emit (Read 0 2) f, Inl (Error (DOSInvalidSignature (u16 (take 2 (r f)) 0))))"
    and "fileHdr f = None \<Longrightarrow> File_FileHeader f
           = (emit (Read 0 2) f, Inl (Error (DOSInvalidSignature (u16 (take 2 (r f)) 0))))"
    and "opthdr f = None \<Longrightarrow> File_OptHeader mem f
           = (emit (Read 0 2) f, Inl (Error (DOSInvalidSignature (u16 (take 2 (r f)) 0))))"
    and "sectHdrs f = None \<Longrightarrow> File_SectHeaders f
           = (emit (Read 0 2) f, Inl (Error (DOSInvalidSignature (u16 (take 2 (r f)) 0))))"
    and "File_Parse mem f
           = (emit (Read 0 2) f, Some (Error (DOSInvalidSignature (u16 (take 2 (r f)) 0))))"
proof -
  note p = parseDOSHeader_badsig [OF assms(2,3)]
  show D: "File_DOSHeader f
           = (emit (Read 0 2) f, Inl (Error (DOSInvalidSignature (u16 (take 2 (r f)) 0))))"
    using assms(1) by (simp add: File_DOSHeader_def p)
  show "fileHdr f = None \<Longrightarrow> File_FileHeader f
           = (emit (Read 0 2) f, Inl (Error (DOSInvalidSignature (u16 (take 2 (r f)) 0))))"
    by (simp add: File_FileHeader_def parseFileHeader_def D)
  show "opthdr f = None \<Longrightarrow> File_OptHeader mem f
           = (emit (Read 0 2) f, Inl (Error (DOSInvalidSignature (u16 (take 2 (r f)) 0))))"
    by (simp add: File_OptHeader_def parseOptHeader_def D)
  show "sectHdrs f = None \<Longrightarrow> File_SectHeaders f
           = (emit (Read 0 2) f, Inl (Error (DOSInvalidSignature (u16 (take 2 (r f)) 0))))"
    by (simp add: File_SectHeaders_def parseSectHeaders_def D)
  show "File_Parse mem f
           = (emit (Read 0 2) f, Some (Error (DOSInvalidSignature (u16 (take 2 (r f)) 0))))"
    by (simp add: File_Parse_def p)
qed

text \<open>
  A source whose DOS header parses and whose four bytes at \<open>PEHdrOffset\<close> are not
  the PE signature: the section-header accessor and the overlay fail with the
  invalid-signature error of the file header.
\<close>

lemma bad_PE_signature_stops_dependents:
  assumes D: "snd (File_DOSHeader f) = Inr (Some dh)"
    and N: "fileHdr f = None" "sectHdrs f = None" "overlay f = None"
    and len: "4 \<le> length (r f) - unat (dh_PEHdrOffset dh)"
    and sig: "u32 (take 4 (drop (unat (dh_PEHdrOffset dh)) (r f))) 0 \<noteq> pe"
  shows "snd (File_SectHeaders f) =
           Inl (Error (FileInvalidSignature (u32 (take 4 (drop (unat (dh_PEHdrOffset dh)) (r f))) 0)))"
    and "snd (File_Overlay f) =
           Inl (Error (FileInvalidSignature (u32 (take 4 (drop (unat (dh_PEHdrOffset dh)) (r f))) 0)))"
proof -
  let ?e = "Error (FileInvalidSignature (u32 (take 4 (drop (unat (dh_PEHdrOffset dh)) (r f))) 0))"
  obtain f1 where D': "File_DOSHeader f = (f1, Inr (Some dh))"
    using D by (cases "File_DOSHeader f") simp
  from File_DOSHeader_frame [OF D'] File_DOSHeader_result [OF D'] N
  have f1: "r f1 = r f" "fileHdr f1 = None" "doshdr f1 = Some dh"
    by simp_all
  have "snd (File_DOSHeader f1) = Inr (Some dh)"
    by (simp add: File_DOSHeader_cached [OF f1(3)])
  from File_FileHeader_badsig(1) [OF this f1(2)] len sig
  have "snd (File_FileHeader f1) = Inl ?e"
    by (simp add: f1(1))
  then obtain f2 where F: "File_FileHeader f1 = (f2, Inl ?e)"
    by (cases "File_FileHeader f1") simp
  have p: "parseSectHeaders f = (f2, Some ?e)"
    by (simp add: parseSectHeaders_def D' F Let_def)
  show s: "snd (File_SectHeaders f) = Inl ?e"
    using N(2) by (simp add: File_SectHeaders_def p)
  have "File_SectHeaders f = (f2, Inl ?e)"
    using N(2) by (simp add: File_SectHeaders_def p)
  then show "snd (File_Overlay f) = Inl ?e"
    using N(3) by (simp add: File_Overlay_def parseOverlay_def)
qed

subsection \<open>Rendering of section flags\<close>

text \<open>
  C6, the code at a failing input. For the flags word \<open>0x00F00000\<close> (all of bits 20 to
  23 set) the loop skips the four bits, the range test
  \<open>flags <= SectFlagObjAlign8192\<close> fails, and the result is \<open>none\<close>, the rendering
  of the word 0: the four set bits are not rendered, not even by the branch for an
  unknown alignment. An alignment of the table and a bit without a name are rendered.
\<close>

theorem SectFlag_String_drops_alignment_15:
  "SectFlag_String 0x00F00000 = ''none''
   \<and> SectFlag_String 0 = ''none''
   \<and> SectFlag_String 0x00200000 = ''align 2''
   \<and> SectFlag_String 0x00000001 = ''unknown flag: 0x00000001''"
  by code_simp

end
